theory Spec2Isabelle
  imports Complex_Main
begin

section \<open>Python values, strings and exceptions\<close>

text \<open>
  The analysed subsystem is \<^verbatim>\<open>src/ai/manager.py\<close> together with the provider
  classes under \<^verbatim>\<open>src/ai/providers/\<close>.  Python's \<^verbatim>\<open>str\<close> is modelled as
  \<^typ>\<open>string\<close>, read as the UTF-8 encoding of the text; the model is exact on ASCII text.
  Python's \<^verbatim>\<open>float\<close> is idealised as \<^typ>\<open>rat\<close>: sums and quotients are exact,
  rounding of binary floating point is not modelled.  Values of type \<^verbatim>\<open>Any\<close>
  (JSON replies, configuration entries) are values of \<open>pyval\<close>; a \<^verbatim>\<open>dict\<close> is an
  association list in insertion order, looked up with \<^const>\<open>map_of\<close>.
\<close>

datatype pyval =
    PyNone
  | PyBool bool
  | PyInt int
  | PyFloat rat
  | PyStr string
  | PyList "pyval list"
  | PyDict "(string \<times> pyval) list"

text \<open>An exception object: its class name and what \<^verbatim>\<open>str(e)\<close> returns.\<close>

datatype exn = Exn string string

fun str_exn :: "exn \<Rightarrow> string" where
  "str_exn (Exn cls msg) = msg"

text \<open>
  The classes of the standard library that derive from \<^verbatim>\<open>BaseException\<close> and not
  from \<^verbatim>\<open>Exception\<close>; \<^verbatim>\<open>asyncio.CancelledError\<close> is one of them since Python 3.8.
  The sources define no exception class of their own.
\<close>

definition base_only_classes :: "string list" where
  "base_only_classes =
     [''BaseException'', ''BaseExceptionGroup'', ''GeneratorExit'', ''KeyboardInterrupt'',
      ''SystemExit'', ''CancelledError'']"

text \<open>\<^verbatim>\<open>isinstance(e, Exception)\<close>, the test of \<^verbatim>\<open>except Exception\<close>.\<close>

fun is_Exception :: "exn \<Rightarrow> bool" where
  "is_Exception (Exn cls msg) = (cls \<notin> set base_only_classes)"

text \<open>
  A task that ends in \<^verbatim>\<open>KeyboardInterrupt\<close> or \<^verbatim>\<open>SystemExit\<close> raises it again
  into the event loop, which stops.
\<close>

fun stops_event_loop :: "exn \<Rightarrow> bool" where
  "stops_event_loop (Exn cls msg) = (cls \<in> set [''KeyboardInterrupt'', ''SystemExit''])"

fun type_name :: "pyval \<Rightarrow> string" where
  "type_name PyNone = ''NoneType''"
| "type_name (PyBool b) = ''bool''"
| "type_name (PyInt i) = ''int''"
| "type_name (PyFloat r) = ''float''"
| "type_name (PyStr s) = ''str''"
| "type_name (PyList xs) = ''list''"
| "type_name (PyDict kvs) = ''dict''"

text \<open>Truth value testing, as \<^verbatim>\<open>not x\<close> and \<^verbatim>\<open>if x\<close> use it.\<close>

fun truthy :: "pyval \<Rightarrow> bool" where
  "truthy PyNone = False"
| "truthy (PyBool b) = b"
| "truthy (PyInt i) = (i \<noteq> 0)"
| "truthy (PyFloat r) = (r \<noteq> 0)"
| "truthy (PyStr s) = (s \<noteq> [])"
| "truthy (PyList xs) = (xs \<noteq> [])"
| "truthy (PyDict kvs) = (kvs \<noteq> [])"

text \<open>\<^verbatim>\<open>d.get(k, default)\<close> on a dict.\<close>

definition dict_get :: "(string \<times> 'v) list \<Rightarrow> string \<Rightarrow> 'v \<Rightarrow> 'v" where
  "dict_get d k dflt = (case map_of d k of None \<Rightarrow> dflt | Some v \<Rightarrow> v)"

subsection \<open>String methods\<close>

definition lower_char :: "char \<Rightarrow> char" where
  "lower_char c =
     (case map_of (zip ''ABCDEFGHIJKLMNOPQRSTUVWXYZ'' ''abcdefghijklmnopqrstuvwxyz'') c of
        None \<Rightarrow> c | Some d \<Rightarrow> d)"

definition upper_char :: "char \<Rightarrow> char" where
  "upper_char c =
     (case map_of (zip ''abcdefghijklmnopqrstuvwxyz'' ''ABCDEFGHIJKLMNOPQRSTUVWXYZ'') c of
        None \<Rightarrow> c | Some d \<Rightarrow> d)"

text \<open>\<^verbatim>\<open>s.lower()\<close> and \<^verbatim>\<open>s.upper()\<close>, on the ASCII letters.\<close>

definition lower :: "string \<Rightarrow> string" where
  "lower s = map lower_char s"

definition upper :: "string \<Rightarrow> string" where
  "upper s = map upper_char s"

text \<open>\<^verbatim>\<open>s.startswith(p)\<close>.\<close>

fun startswith :: "string \<Rightarrow> string \<Rightarrow> bool" where
  "startswith s [] = True"
| "startswith [] (p # ps) = False"
| "startswith (c # cs) (p # ps) = (c = p \<and> startswith cs ps)"

text \<open>\<^verbatim>\<open>sub in s\<close> for two strings: \<open>sub\<close> occurs in \<open>s\<close> as a contiguous block.\<close>

fun py_in :: "string \<Rightarrow> string \<Rightarrow> bool" where
  "py_in sub [] = (sub = [])"
| "py_in sub (c # cs) = (startswith (c # cs) sub \<or> py_in sub cs)"

text \<open>\<^verbatim>\<open>s.split('\n')\<close>: the pieces between line feeds; never the empty list.\<close>

fun split_lines :: "string \<Rightarrow> string list" where
  "split_lines [] = [[]]"
| "split_lines (c # cs) =
     (if c = CHR 0x0A then [] # split_lines cs
      else (case split_lines cs of
              [] \<Rightarrow> [[c]]
            | l # ls \<Rightarrow> (c # l) # ls))"

text \<open>
  \<^verbatim>\<open>s.strip()\<close>: the ASCII characters for which \<^verbatim>\<open>str.isspace\<close> holds are
  tab, line feed, vertical tab, form feed, carriage return, the four separators
  \<open>0x1C\<close> to \<open>0x1F\<close> and the space.
\<close>

definition isspace :: "char \<Rightarrow> bool" where
  "isspace c \<longleftrightarrow> c \<in> set [CHR 0x09, CHR 0x0A, CHR 0x0B, CHR 0x0C, CHR 0x0D,
                             CHR 0x1C, CHR 0x1D, CHR 0x1E, CHR 0x1F, CHR 0x20]"

definition strip :: "string \<Rightarrow> string" where
  "strip s = rev (dropWhile isspace (rev (dropWhile isspace s)))"

text \<open>\<^verbatim>\<open>sep.join(xs)\<close>.\<close>

fun join :: "string \<Rightarrow> string list \<Rightarrow> string" where
  "join sep [] = []"
| "join sep [x] = x"
| "join sep (x # y # ys) = x @ sep @ join sep (y # ys)"

text \<open>
  \<^verbatim>\<open>text.lower()\<close> on a value of any type: a value that is not a \<^verbatim>\<open>str\<close> has no
  such method, and the attribute lookup raises \<^verbatim>\<open>AttributeError\<close>.
\<close>

definition no_attribute :: "string \<Rightarrow> string \<Rightarrow> exn" where
  "no_attribute ty attr =
     Exn ''AttributeError'' ([CHR 0x27] @ ty @ [CHR 0x27] @ '' object has no attribute ''
                              @ [CHR 0x27] @ attr @ [CHR 0x27])"

fun py_lower :: "pyval \<Rightarrow> exn + string" where
  "py_lower (PyStr s) = Inr (lower s)"
| "py_lower v = Inl (no_attribute (type_name v) ''lower'')"

text \<open>\<^verbatim>\<open>text.split('\n')\<close> on a value of any type, likewise.\<close>

fun py_split_lines :: "pyval \<Rightarrow> exn + string list" where
  "py_split_lines (PyStr s) = Inr (split_lines s)"
| "py_split_lines v = Inl (no_attribute (type_name v) ''split'')"

subsection \<open>Number formatting\<close>

text \<open>\<^verbatim>\<open>str(n)\<close> of a natural number, in decimal.\<close>

definition digit :: "nat \<Rightarrow> char" where
  "digit d = ''0123456789'' ! d"

fun show_nat :: "nat \<Rightarrow> string" where
  "show_nat n = (if n < 10 then [digit n] else show_nat (n div 10) @ [digit (n mod 10)])"

text \<open>
  The format \<^verbatim>\<open>{x:.2f}\<close>: two decimals, the nearest value, a tie going to the
  even neighbour; the sign is printed for every negative value.
\<close>

definition round_half_even :: "rat \<Rightarrow> nat" where
  "round_half_even q =
     (let f = nat \<lfloor>q\<rfloor>; d = q - of_int \<lfloor>q\<rfloor>
      in if d < 1 / 2 then f else if 1 / 2 < d then f + 1
         else if even f then f else f + 1)"

definition format_2f :: "rat \<Rightarrow> string" where
  "format_2f x =
     (let n = round_half_even (\<bar>x\<bar> * 100)
      in (if x < 0 then ''-'' else '''') @ show_nat (n div 100) @ ''.''
           @ [digit (n mod 100 div 10), digit (n mod 10)])"

declare show_nat.simps [simp del]

section \<open>The outcome: \<^verbatim>\<open>AIResponse\<close> (providers/base.py)\<close>

text \<open>
  The dataclass \<^verbatim>\<open>AIResponse\<close>.  Its \<^verbatim>\<open>metadata\<close> is a dict whose values are
  of any type; the consensus stores the list of the individual responses there, so the
  type of the values is defined together with the response.  The field \<^verbatim>\<open>analysis\<close>
  holds whatever the caller passes, which for the parsers is the raw reply.
\<close>

datatype metaval = MVal pyval | MResponses "AIResponse list"
and AIResponse =
  AIResponse (success: bool) (analysis: pyval) (confidence: rat) (recommendation: string)
             (risk_score: rat) (reasoning: "string list")
             (metadata: "(string \<times> metaval) list")

text \<open>The defaults of the dataclass: \<^verbatim>\<open>AIResponse(success=s, analysis=a, metadata=m)\<close>.\<close>

definition AIResponse_defaults :: "bool \<Rightarrow> pyval \<Rightarrow> (string \<times> metaval) list \<Rightarrow> AIResponse" where
  "AIResponse_defaults s a m = AIResponse s a 0 ''hold'' (1 / 2) [] m"

section \<open>Provider adapters\<close>

type_synonym settings = "(string \<times> pyval) list"

text \<open>
  A provider object holds its configuration dict and what its constructor reads from it:
  the base URL (the API key for Gemini), the model and the timeout.  The class
  \<^verbatim>\<open>LocalAIProvider\<close> (providers/localai.py) is not among the sources; its objects
  carry what the base class \<^verbatim>\<open>AIProvider.__init__\<close> stores, the configuration.
\<close>

datatype provider =
    OllamaProvider settings pyval pyval pyval
  | LMStudioProvider settings pyval pyval pyval
  | LocalAIProvider settings
  | GeminiProvider settings pyval pyval pyval

text \<open>\<^verbatim>\<open>self.name = self.__class__.__name__\<close>\<close>

fun name :: "provider \<Rightarrow> string" where
  "name (OllamaProvider c u m t) = ''OllamaProvider''"
| "name (LMStudioProvider c u m t) = ''LMStudioProvider''"
| "name (LocalAIProvider c) = ''LocalAIProvider''"
| "name (GeminiProvider c k m t) = ''GeminiProvider''"

subsection \<open>Constructors\<close>

definition OllamaProvider_init :: "settings \<Rightarrow> exn + provider" where
  "OllamaProvider_init config =
     Inr (OllamaProvider config
            (dict_get config ''url'' (PyStr ''http://localhost:11434''))
            (dict_get config ''model'' (PyStr ''llama3.2''))
            (dict_get config ''timeout'' (PyInt 30)))"

definition LMStudioProvider_init :: "settings \<Rightarrow> exn + provider" where
  "LMStudioProvider_init config =
     Inr (LMStudioProvider config
            (dict_get config ''url'' (PyStr ''http://localhost:1234''))
            (dict_get config ''model'' (PyStr ''local-model''))
            (dict_get config ''timeout'' (PyInt 30)))"

definition GeminiProvider_init :: "settings \<Rightarrow> exn + provider" where
  "GeminiProvider_init config =
     (let api_key = dict_get config ''api_key'' PyNone;
          model = dict_get config ''model'' (PyStr ''gemini-1.5-flash'');
          timeout = dict_get config ''timeout'' (PyInt 30)
      in if \<not> truthy api_key then Inl (Exn ''ValueError'' ''Gemini API key is required'')
         else Inr (GeminiProvider config api_key model timeout))"

text \<open>
  The constructor of \<^verbatim>\<open>LocalAIProvider\<close>, whose source file providers/localai.py is
  missing.  Whether it raises on a given configuration is the parameter \<open>raises\<close>, about
  which nothing is assumed; when it does not raise, the object is built.
\<close>

definition LocalAIProvider_init :: "(settings \<Rightarrow> exn option) \<Rightarrow> settings \<Rightarrow> exn + provider" where
  "LocalAIProvider_init raises config =
     (case raises config of Some e \<Rightarrow> Inl e | None \<Rightarrow> Inr (LocalAIProvider config))"

section \<open>The response interpreters (\<^verbatim>\<open>_parse_analysis_response\<close>)\<close>

text \<open>
  Each provider class has its own copy of the interpreter.  The local variables
  \<^verbatim>\<open>recommendation\<close>, \<^verbatim>\<open>confidence\<close>, \<^verbatim>\<open>risk_score\<close> and \<^verbatim>\<open>reasoning\<close>
  of the source are one function each, with the \<^verbatim>\<open>if/elif\<close> chains in source order.
\<close>

subsection \<open>Gemini (providers/gemini.py)\<close>

definition gemini_recommendation :: "string \<Rightarrow> string" where
  "gemini_recommendation text_lower =
     (if py_in ''recommend buy'' text_lower \<or> py_in ''should buy'' text_lower then ''buy''
      else if py_in ''recommend sell'' text_lower \<or> py_in ''should sell'' text_lower then ''sell''
      else if py_in ''avoid'' text_lower \<or> py_in ''skip'' text_lower then ''sell''
      else ''hold'')"

definition gemini_confidence :: "string \<Rightarrow> rat" where
  "gemini_confidence text_lower =
     (if py_in ''high confidence'' text_lower \<or> py_in ''very confident'' text_lower then 8 / 10
      else if py_in ''low confidence'' text_lower \<or> py_in ''uncertain'' text_lower then 3 / 10
      else if py_in ''extremely confident'' text_lower then 9 / 10
      else 5 / 10)"

definition gemini_risk_score :: "string \<Rightarrow> rat" where
  "gemini_risk_score text_lower =
     (if py_in ''high risk'' text_lower \<or> py_in ''risky'' text_lower then 8 / 10
      else if py_in ''low risk'' text_lower \<or> py_in ''safe'' text_lower then 2 / 10
      else if py_in ''extremely risky'' text_lower then 9 / 10
      else 5 / 10)"

text \<open>The bullet U+2022, in UTF-8.\<close>

definition bullet :: string where
  "bullet = [CHR 0xE2, CHR 0x80, CHR 0xA2]"

definition gemini_markers :: "string list" where
  "gemini_markers = [''-'', bullet, ''*'', ''1.'', ''2.'', ''3.'', ''4.'', ''5.'']"

definition gemini_reasoning :: "string list \<Rightarrow> string list" where
  "gemini_reasoning lines =
     filter (\<lambda>line. \<exists>m \<in> set gemini_markers. startswith line m) (map strip lines)"

text \<open>
  The body of the \<^verbatim>\<open>try\<close> block.  \<^verbatim>\<open>text.lower()\<close> and \<^verbatim>\<open>text.split('\n')\<close>
  are the statements that can raise: they do when the reply is not a \<^verbatim>\<open>str\<close>.
  What they raise is an \<^verbatim>\<open>AttributeError\<close>, which the handler \<^verbatim>\<open>except Exception\<close>
  of the method catches.
\<close>

definition gemini_try :: "pyval \<Rightarrow> pyval \<Rightarrow> exn + AIResponse" where
  "gemini_try model text =
     (case py_lower text of
        Inl e \<Rightarrow> Inl e
      | Inr text_lower \<Rightarrow>
          (case py_split_lines text of
             Inl e \<Rightarrow> Inl e
           | Inr lines \<Rightarrow>
               Inr (AIResponse True text (gemini_confidence text_lower)
                      (gemini_recommendation text_lower) (gemini_risk_score text_lower)
                      (take 5 (gemini_reasoning lines))
                      [(''provider'', MVal (PyStr ''gemini'')), (''model'', MVal model)])))"

definition Gemini_parse_analysis_response :: "pyval \<Rightarrow> pyval \<Rightarrow> AIResponse" where
  "Gemini_parse_analysis_response model text =
     (case gemini_try model text of
        Inr response \<Rightarrow> response
      | Inl e \<Rightarrow>
          AIResponse_defaults True text
            [(''provider'', MVal (PyStr ''gemini'')), (''model'', MVal model),
             (''parse_error'', MVal (PyStr (str_exn e)))])"

subsection \<open>LM Studio (providers/lmstudio.py)\<close>

definition lmstudio_recommendation :: "string \<Rightarrow> string" where
  "lmstudio_recommendation text_lower =
     (if py_in ''recommend buy'' text_lower \<or> py_in ''should buy'' text_lower then ''buy''
      else if py_in ''recommend sell'' text_lower \<or> py_in ''should sell'' text_lower then ''sell''
      else if py_in ''avoid'' text_lower \<or> py_in ''skip'' text_lower then ''sell''
      else ''hold'')"

definition lmstudio_confidence :: "string \<Rightarrow> rat" where
  "lmstudio_confidence text_lower =
     (if py_in ''high confidence'' text_lower \<or> py_in ''very confident'' text_lower then 8 / 10
      else if py_in ''low confidence'' text_lower \<or> py_in ''uncertain'' text_lower then 3 / 10
      else if py_in ''extremely confident'' text_lower then 9 / 10
      else 5 / 10)"

definition lmstudio_risk_score :: "string \<Rightarrow> rat" where
  "lmstudio_risk_score text_lower =
     (if py_in ''high risk'' text_lower \<or> py_in ''risky'' text_lower then 8 / 10
      else if py_in ''low risk'' text_lower \<or> py_in ''safe'' text_lower then 2 / 10
      else if py_in ''extremely risky'' text_lower \<or> py_in ''very dangerous'' text_lower
        then 9 / 10
      else 5 / 10)"

text \<open>
  The second marker of this file is the three characters U+00E2, U+20AC, U+00A2
  (a bullet decoded in the wrong character set), in UTF-8.
\<close>

definition lmstudio_bullet :: string where
  "lmstudio_bullet = [CHR 0xC3, CHR 0xA2, CHR 0xE2, CHR 0x82, CHR 0xAC, CHR 0xC2, CHR 0xA2]"

definition lmstudio_markers :: "string list" where
  "lmstudio_markers = [''-'', lmstudio_bullet, ''*'', ''1.'', ''2.'', ''3.'', ''4.'', ''5.'']"

definition lmstudio_reasoning :: "string list \<Rightarrow> string list" where
  "lmstudio_reasoning lines =
     filter (\<lambda>line. \<exists>m \<in> set lmstudio_markers. startswith line m) (map strip lines)"

definition lmstudio_try :: "pyval \<Rightarrow> pyval \<Rightarrow> exn + AIResponse" where
  "lmstudio_try model text =
     (case py_lower text of
        Inl e \<Rightarrow> Inl e
      | Inr text_lower \<Rightarrow>
          (case py_split_lines text of
             Inl e \<Rightarrow> Inl e
           | Inr lines \<Rightarrow>
               Inr (AIResponse True text (lmstudio_confidence text_lower)
                      (lmstudio_recommendation text_lower) (lmstudio_risk_score text_lower)
                      (take 5 (lmstudio_reasoning lines))
                      [(''provider'', MVal (PyStr ''lmstudio'')), (''model'', MVal model)])))"

definition LMStudio_parse_analysis_response :: "pyval \<Rightarrow> pyval \<Rightarrow> AIResponse" where
  "LMStudio_parse_analysis_response model text =
     (case lmstudio_try model text of
        Inr response \<Rightarrow> response
      | Inl e \<Rightarrow>
          AIResponse_defaults True text
            [(''provider'', MVal (PyStr ''lmstudio'')), (''model'', MVal model),
             (''parse_error'', MVal (PyStr (str_exn e)))])"

subsection \<open>Ollama (providers/ollama.py)\<close>

definition ollama_recommendation :: "string \<Rightarrow> string" where
  "ollama_recommendation text_lower =
     (if py_in ''buy'' text_lower \<and> py_in ''recommend'' text_lower then ''buy''
      else if py_in ''sell'' text_lower \<and> py_in ''recommend'' text_lower then ''sell''
      else ''hold'')"

definition ollama_confidence :: "string \<Rightarrow> rat" where
  "ollama_confidence text_lower =
     (if py_in ''high confidence'' text_lower then 8 / 10
      else if py_in ''low confidence'' text_lower then 3 / 10
      else if py_in ''very confident'' text_lower then 9 / 10
      else 5 / 10)"

definition ollama_risk_score :: "string \<Rightarrow> rat" where
  "ollama_risk_score text_lower =
     (if py_in ''high risk'' text_lower then 8 / 10
      else if py_in ''low risk'' text_lower then 2 / 10
      else if py_in ''very risky'' text_lower \<or> py_in ''extremely risky'' text_lower
        then 9 / 10
      else 5 / 10)"

definition ollama_markers :: "string list" where
  "ollama_markers = [''-'', bullet, ''*'']"

definition ollama_reasoning :: "string list \<Rightarrow> string list" where
  "ollama_reasoning lines =
     filter (\<lambda>line. (\<exists>m \<in> set ollama_markers. startswith line m)
                   \<or> (\<exists>word \<in> set [''because'', ''due to'', ''reason'']. py_in word (lower line)))
            (map strip lines)"

definition ollama_try :: "pyval \<Rightarrow> pyval \<Rightarrow> exn + AIResponse" where
  "ollama_try model text =
     (case py_lower text of
        Inl e \<Rightarrow> Inl e
      | Inr text_lower \<Rightarrow>
          (case py_split_lines text of
             Inl e \<Rightarrow> Inl e
           | Inr lines \<Rightarrow>
               Inr (AIResponse True text (ollama_confidence text_lower)
                      (ollama_recommendation text_lower) (ollama_risk_score text_lower)
                      (take 5 (ollama_reasoning lines))
                      [(''provider'', MVal (PyStr ''ollama'')), (''model'', MVal model)])))"

definition Ollama_parse_analysis_response :: "pyval \<Rightarrow> pyval \<Rightarrow> AIResponse" where
  "Ollama_parse_analysis_response model text =
     (case ollama_try model text of
        Inr response \<Rightarrow> response
      | Inl e \<Rightarrow>
          AIResponse_defaults True text
            [(''provider'', MVal (PyStr ''ollama'')), (''model'', MVal model),
             (''parse_error'', MVal (PyStr (str_exn e)))])"

section \<open>The adapters' \<^verbatim>\<open>analyze_token\<close>\<close>

text \<open>
  \<^verbatim>\<open>analyze_token\<close> of a provider awaits one HTTP round trip inside a \<^verbatim>\<open>try\<close>
  block.  What the network and the JSON decoding did is an input of the model: either
  some statement of the block raised an exception, or the status was not 200 and the
  body text was read, or the reply was extracted and bound to \<^verbatim>\<open>analysis_text\<close>.
  The Gemini adapter has one more branch, taken when the reply has no candidates.
  The formatting of the prompt that is sent has no effect on the outcome and is left out.
  The handler of the block is \<^verbatim>\<open>except Exception\<close>: an exception of another class
  leaves the method, which is the result \<open>Inl\<close>.
\<close>

datatype http_outcome =
    Raised exn
  | ErrorStatus string
  | AnalysisText pyval

datatype gemini_outcome =
    GRaised exn
  | GErrorStatus string
  | GNoCandidates
  | GAnalysisText pyval

fun Ollama_analyze_token :: "pyval \<Rightarrow> http_outcome \<Rightarrow> exn + AIResponse" where
  "Ollama_analyze_token model (ErrorStatus error_text) =
     Inr (AIResponse_defaults False (PyStr (''API Error: '' @ error_text)) [])"
| "Ollama_analyze_token model (AnalysisText analysis_text) =
     Inr (Ollama_parse_analysis_response model analysis_text)"
| "Ollama_analyze_token model (Raised e) =
     (if is_Exception e
      then Inr (AIResponse_defaults False (PyStr (''Error: '' @ str_exn e)) [])
      else Inl e)"

fun LMStudio_analyze_token :: "pyval \<Rightarrow> http_outcome \<Rightarrow> exn + AIResponse" where
  "LMStudio_analyze_token model (ErrorStatus error_text) =
     Inr (AIResponse_defaults False (PyStr (''API Error: '' @ error_text)) [])"
| "LMStudio_analyze_token model (AnalysisText analysis_text) =
     Inr (LMStudio_parse_analysis_response model analysis_text)"
| "LMStudio_analyze_token model (Raised e) =
     (if is_Exception e
      then Inr (AIResponse_defaults False (PyStr (''Error: '' @ str_exn e)) [])
      else Inl e)"

fun Gemini_analyze_token :: "pyval \<Rightarrow> gemini_outcome \<Rightarrow> exn + AIResponse" where
  "Gemini_analyze_token model (GErrorStatus error_text) =
     Inr (AIResponse_defaults False (PyStr (''API Error: '' @ error_text)) [])"
| "Gemini_analyze_token model GNoCandidates =
     Inr (AIResponse_defaults False (PyStr ''No response from Gemini'') [])"
| "Gemini_analyze_token model (GAnalysisText analysis_text) =
     Inr (Gemini_parse_analysis_response model analysis_text)"
| "Gemini_analyze_token model (GRaised e) =
     (if is_Exception e
      then Inr (AIResponse_defaults False (PyStr (''Error: '' @ str_exn e)) [])
      else Inl e)"

text \<open>
  \<^verbatim>\<open>analyze_market_conditions\<close> has no status check: the round trip either raises
  or yields the text that is parsed.
\<close>

fun Ollama_analyze_market_conditions :: "pyval \<Rightarrow> exn + pyval \<Rightarrow> exn + AIResponse" where
  "Ollama_analyze_market_conditions model (Inr analysis_text) =
     Inr (Ollama_parse_analysis_response model analysis_text)"
| "Ollama_analyze_market_conditions model (Inl e) =
     (if is_Exception e
      then Inr (AIResponse_defaults False (PyStr (''Error: '' @ str_exn e)) [])
      else Inl e)"

fun LMStudio_analyze_market_conditions :: "pyval \<Rightarrow> exn + pyval \<Rightarrow> exn + AIResponse" where
  "LMStudio_analyze_market_conditions model (Inr analysis_text) =
     Inr (LMStudio_parse_analysis_response model analysis_text)"
| "LMStudio_analyze_market_conditions model (Inl e) =
     (if is_Exception e
      then Inr (AIResponse_defaults False (PyStr (''Error: '' @ str_exn e)) [])
      else Inl e)"

fun Gemini_analyze_market_conditions :: "pyval \<Rightarrow> exn + pyval \<Rightarrow> exn + AIResponse" where
  "Gemini_analyze_market_conditions model (Inr analysis_text) =
     Inr (Gemini_parse_analysis_response model analysis_text)"
| "Gemini_analyze_market_conditions model (Inl e) =
     (if is_Exception e
      then Inr (AIResponse_defaults False (PyStr (''Error: '' @ str_exn e)) [])
      else Inl e)"

text \<open>
  The world one call of the manager runs in: for each provider object, the outcome of
  its round trip.  The method \<^verbatim>\<open>analyze_token\<close> of \<^verbatim>\<open>LocalAIProvider\<close> is not
  among the sources; what it returns or raises is part of the world.
\<close>

record world =
  ollama_http :: "provider \<Rightarrow> http_outcome"
  lmstudio_http :: "provider \<Rightarrow> http_outcome"
  gemini_http :: "provider \<Rightarrow> gemini_outcome"
  localai_analyze_token :: "provider \<Rightarrow> exn + AIResponse"

text \<open>The dynamic dispatch of \<^verbatim>\<open>provider.analyze_token(token_info, market_data)\<close>.\<close>

fun provider_analyze_token :: "world \<Rightarrow> provider \<Rightarrow> exn + AIResponse" where
  "provider_analyze_token w (OllamaProvider c u m t) =
     Ollama_analyze_token m (ollama_http w (OllamaProvider c u m t))"
| "provider_analyze_token w (LMStudioProvider c u m t) =
     LMStudio_analyze_token m (lmstudio_http w (LMStudioProvider c u m t))"
| "provider_analyze_token w (LocalAIProvider c) =
     localai_analyze_token w (LocalAIProvider c)"
| "provider_analyze_token w (GeminiProvider c k m t) =
     Gemini_analyze_token m (gemini_http w (GeminiProvider c k m t))"

section \<open>The manager (ai/manager.py)\<close>

subsection \<open>\<^verbatim>\<open>_setup_providers\<close>\<close>

type_synonym provider_configs = "(string \<times> settings) list"

type_synonym config = "(string \<times> provider_configs) list"

text \<open>
  One of the four blocks of \<^verbatim>\<open>_setup_providers\<close>: when the key is in
  \<^verbatim>\<open>provider_configs\<close> and its entry has a true \<^verbatim>\<open>enabled\<close>, the constructor runs
  inside \<^verbatim>\<open>try\<close>; the provider is appended when it returns, and the exception is
  logged and dropped when it raises.  Logging changes no state and is left out.
\<close>

definition setup_block ::
  "string \<Rightarrow> (settings \<Rightarrow> exn + provider) \<Rightarrow> provider_configs \<Rightarrow> provider list \<Rightarrow> provider list" where
  "setup_block key init provider_configs providers =
     (case map_of provider_configs key of
        None \<Rightarrow> providers
      | Some provider_config \<Rightarrow>
          if truthy (dict_get provider_config ''enabled'' (PyBool False))
          then (case init provider_config of
                  Inr provider \<Rightarrow> providers @ [provider]
                | Inl e \<Rightarrow> providers)
          else providers)"

definition setup_providers :: "(settings \<Rightarrow> exn option) \<Rightarrow> config \<Rightarrow> provider list" where
  "setup_providers localai_raises config =
     (let provider_configs = dict_get config ''providers'' [];
          providers = [];
          providers = setup_block ''ollama'' OllamaProvider_init provider_configs providers;
          providers = setup_block ''lmstudio'' LMStudioProvider_init provider_configs providers;
          providers = setup_block ''localai'' (LocalAIProvider_init localai_raises)
                        provider_configs providers;
          providers = setup_block ''gemini'' GeminiProvider_init provider_configs providers
      in providers)"

subsection \<open>\<^verbatim>\<open>_safe_analyze_token\<close> and \<^verbatim>\<open>analyze_token\<close>\<close>

text \<open>
  The result of a coroutine is \<open>Inr\<close> of what it returns or \<open>Inl\<close> of the exception
  that leaves it.  The handler of \<^verbatim>\<open>_safe_analyze_token\<close> is \<^verbatim>\<open>except Exception\<close>:
  it builds the failure outcome for an exception of that class and lets any other pass.
\<close>

definition safe_analyze_token :: "world \<Rightarrow> provider \<Rightarrow> exn + AIResponse" where
  "safe_analyze_token w provider =
     (case provider_analyze_token w provider of
        Inr response \<Rightarrow> Inr response
      | Inl e \<Rightarrow>
          if is_Exception e
          then Inr (AIResponse_defaults False
                      (PyStr (''Provider '' @ name provider @ '' failed: '' @ str_exn e))
                      [(''provider'', MVal (PyStr (name provider))),
                       (''error'', MVal (PyStr (str_exn e)))])
          else Inl e)"

text \<open>
  \<^verbatim>\<open>await asyncio.gather(*tasks, return_exceptions=True)\<close>.  Each task runs one
  wrapped call.  A task that ends in \<^verbatim>\<open>KeyboardInterrupt\<close> or \<^verbatim>\<open>SystemExit\<close> stops
  the event loop: the \<^verbatim>\<open>await\<close> is not resumed and the exception reaches whoever runs
  the loop, which is the result \<open>Inl\<close> (of the first such task in task order; which one
  the loop meets first depends on timing).  Otherwise \<^verbatim>\<open>gather\<close> returns one result
  per task, in the order of the tasks, the exception of a task that ended in one (a
  cancelled task included) being a result like any other.
\<close>

fun loop_stoppers :: "(exn + 'a) list \<Rightarrow> exn list" where
  "loop_stoppers [] = []"
| "loop_stoppers (Inl e # results) =
     (if stops_event_loop e then e # loop_stoppers results else loop_stoppers results)"
| "loop_stoppers (Inr r # results) = loop_stoppers results"

definition gather :: "(exn + 'a) list \<Rightarrow> exn + (exn + 'a) list" where
  "gather results =
     (case loop_stoppers results of
        [] \<Rightarrow> Inr results
      | e # es \<Rightarrow> Inl e)"

text \<open>
  The loop after \<^verbatim>\<open>gather\<close>: a result that is an \<^verbatim>\<open>Exception\<close> is logged, a result
  that is an \<^verbatim>\<open>AIResponse\<close> is appended, and any other result (an exception of another
  class) is passed over in silence.  Only the responses are kept.
\<close>

fun valid_responses :: "(exn + AIResponse) list \<Rightarrow> AIResponse list" where
  "valid_responses [] = []"
| "valid_responses (Inl e # responses) = valid_responses responses"
| "valid_responses (Inr response # responses) = response # valid_responses responses"

definition analyze_token :: "world \<Rightarrow> provider list \<Rightarrow> exn + AIResponse list" where
  "analyze_token w providers =
     (if providers = [] then Inr []
      else case gather (map (safe_analyze_token w) providers) of
             Inl e \<Rightarrow> Inl e
           | Inr responses \<Rightarrow> Inr (valid_responses responses))"

subsection \<open>\<^verbatim>\<open>get_consensus_analysis\<close>\<close>

text \<open>\<^verbatim>\<open>x / n\<close> raises \<^verbatim>\<open>ZeroDivisionError\<close> when \<open>n\<close> is zero.\<close>

definition py_truediv :: "rat \<Rightarrow> nat \<Rightarrow> exn + rat" where
  "py_truediv x n =
     (if n = 0 then Inl (Exn ''ZeroDivisionError'' ''division by zero'')
      else Inr (x / of_nat n))"

text \<open>\<^verbatim>\<open>provider_name.upper()\<close> on a metadata value of any type.\<close>

fun py_upper :: "metaval \<Rightarrow> exn + string" where
  "py_upper (MVal (PyStr s)) = Inr (upper s)"
| "py_upper (MVal v) = Inl (no_attribute (type_name v) ''upper'')"
| "py_upper (MResponses rs) = Inl (no_attribute ''list'' ''upper'')"

text \<open>
  The loop \<^verbatim>\<open>for i, response in enumerate(responses)\<close> that appends one section
  per provider to \<^verbatim>\<open>consensus_text\<close>.
\<close>

fun provider_sections :: "nat \<Rightarrow> AIResponse list \<Rightarrow> string \<Rightarrow> exn + string" where
  "provider_sections i [] consensus_text = Inr consensus_text"
| "provider_sections i (response # responses) consensus_text =
     (let provider_name =
            dict_get (metadata response) ''provider''
              (MVal (PyStr (''Provider '' @ show_nat (i + 1))))
      in case py_upper provider_name of
           Inl e \<Rightarrow> Inl e
         | Inr upper_name \<Rightarrow>
             (let consensus_text = consensus_text @ ''\<newline>'' @ upper_name @ '':\<newline>'';
                  consensus_text = consensus_text @ ''- Recommendation: ''
                                     @ recommendation response @ ''\<newline>'';
                  consensus_text = consensus_text @ ''- Confidence: ''
                                     @ format_2f (confidence response) @ ''\<newline>'';
                  consensus_text = consensus_text @ ''- Risk: ''
                                     @ format_2f (risk_score response) @ ''\<newline>'';
                  consensus_text =
                    (if reasoning response \<noteq> []
                     then consensus_text @ ''- Key points: ''
                            @ join ''; '' (take 2 (reasoning response)) @ ''\<newline>''
                     else consensus_text)
              in provider_sections (i + 1) responses consensus_text))"

definition consensus_header :: "nat \<Rightarrow> string \<Rightarrow> nat \<Rightarrow> nat \<Rightarrow> nat \<Rightarrow> rat \<Rightarrow> rat \<Rightarrow> string" where
  "consensus_header n consensus_recommendation buy_votes sell_votes hold_votes
                    avg_confidence avg_risk_score =
     ''\<newline>CONSENSUS ANALYSIS ('' @ show_nat n @ '' providers):\<newline>''
     @ ''\<newline>''
     @ ''Recommendation: '' @ upper consensus_recommendation @ ''\<newline>''
     @ ''- Buy votes: '' @ show_nat buy_votes @ ''\<newline>''
     @ ''- Sell votes: '' @ show_nat sell_votes @ ''  \<newline>''
     @ ''- Hold votes: '' @ show_nat hold_votes @ ''\<newline>''
     @ ''\<newline>''
     @ ''Average Confidence: '' @ format_2f avg_confidence @ ''\<newline>''
     @ ''Average Risk Score: '' @ format_2f avg_risk_score @ ''\<newline>''
     @ ''\<newline>''
     @ ''Individual Provider Analyses:\<newline>''"

text \<open>
  The body of \<^verbatim>\<open>get_consensus_analysis\<close> after the responses have been collected.
  An exception raised in it leaves the method: the result is \<open>Inl\<close>.
\<close>

definition consensus :: "AIResponse list \<Rightarrow> exn + AIResponse" where
  "consensus responses =
     (if responses = []
      then Inr (AIResponse_defaults False (PyStr ''No AI providers available for analysis'') [])
      else
        let buy_votes = length (filter (\<lambda>r. recommendation r = ''buy'') responses);
            sell_votes = length (filter (\<lambda>r. recommendation r = ''sell'') responses);
            hold_votes = length (filter (\<lambda>r. recommendation r = ''hold'') responses);
            consensus_recommendation =
              (if buy_votes > sell_votes \<and> buy_votes > hold_votes then ''buy''
               else if sell_votes > buy_votes \<and> sell_votes > hold_votes then ''sell''
               else ''hold'')
        in case py_truediv (sum_list (map confidence responses)) (length responses) of
             Inl e \<Rightarrow> Inl e
           | Inr avg_confidence \<Rightarrow>
        (case py_truediv (sum_list (map risk_score responses)) (length responses) of
             Inl e \<Rightarrow> Inl e
           | Inr avg_risk_score \<Rightarrow>
        (let all_reasoning = concat (map reasoning responses);
             consensus_text =
               consensus_header (length responses) consensus_recommendation
                 buy_votes sell_votes hold_votes avg_confidence avg_risk_score
         in case provider_sections 0 responses consensus_text of
              Inl e \<Rightarrow> Inl e
            | Inr consensus_text \<Rightarrow>
                Inr (AIResponse True (PyStr consensus_text) avg_confidence
                       consensus_recommendation avg_risk_score (take 10 all_reasoning)
                       [(''provider'', MVal (PyStr ''consensus'')),
                        (''provider_count'', MVal (PyInt (int (length responses)))),
                        (''individual_responses'', MResponses responses)]))))"

definition get_consensus_analysis :: "world \<Rightarrow> provider list \<Rightarrow> exn + AIResponse" where
  "get_consensus_analysis w providers =
     (case analyze_token w providers of
        Inl e \<Rightarrow> Inl e
      | Inr responses \<Rightarrow> consensus responses)"

section \<open>Notions used by the properties\<close>

text \<open>The number of outcomes that recommend \<open>v\<close>, failed outcomes included.\<close>

definition votes :: "string \<Rightarrow> AIResponse list \<Rightarrow> nat" where
  "votes v responses = length (filter (\<lambda>r. recommendation r = v) responses)"

text \<open>The arithmetic mean of a list of numbers.\<close>

definition mean :: "rat list \<Rightarrow> rat" where
  "mean xs = sum_list xs / of_nat (length xs)"

text \<open>
  An outcome names its adapter with a string: the entry \<^verbatim>\<open>provider\<close> of its metadata,
  when there is one, is a \<^verbatim>\<open>str\<close>.  Every outcome built in the sources is of this kind.
\<close>

fun is_str :: "metaval \<Rightarrow> bool" where
  "is_str (MVal (PyStr s)) = True"
| "is_str v = False"

definition provider_name_is_str :: "AIResponse \<Rightarrow> bool" where
  "provider_name_is_str r =
     (case map_of (metadata r) ''provider'' of None \<Rightarrow> True | Some v \<Rightarrow> is_str v)"

text \<open>The invariant of the data model: scores within \<open>[0,1]\<close>, one of three recommendations.\<close>

definition in_range :: "AIResponse \<Rightarrow> bool" where
  "in_range r \<longleftrightarrow>
     0 \<le> confidence r \<and> confidence r \<le> 1 \<and> 0 \<le> risk_score r \<and> risk_score r \<le> 1
     \<and> recommendation r \<in> set [''buy'', ''sell'', ''hold'']"

definition adapter_outcome_ok :: "AIResponse \<Rightarrow> bool" where
  "adapter_outcome_ok r \<longleftrightarrow> in_range r \<and> length (reasoning r) \<le> 5"

definition consensus_decision_ok :: "AIResponse \<Rightarrow> bool" where
  "consensus_decision_ok r \<longleftrightarrow> in_range r \<and> length (reasoning r) \<le> 10"

text \<open>The trigger phrases of the specification's rule table for the recommendation.\<close>

definition sell_trigger :: "string \<Rightarrow> bool" where
  "sell_trigger text_lower \<longleftrightarrow>
     py_in ''recommend sell'' text_lower \<or> py_in ''should sell'' text_lower
     \<or> py_in ''avoid'' text_lower \<or> py_in ''skip'' text_lower"

definition buy_trigger :: "string \<Rightarrow> bool" where
  "buy_trigger text_lower \<longleftrightarrow>
     py_in ''recommend buy'' text_lower \<or> py_in ''should buy'' text_lower"

text \<open>
  The recommendation as the specification words it: sell triggers are checked first,
  then buy triggers, otherwise hold.
\<close>

definition spec_recommendation :: "string \<Rightarrow> string" where
  "spec_recommendation text_lower =
     (if sell_trigger text_lower then ''sell''
      else if buy_trigger text_lower then ''buy''
      else ''hold'')"

text \<open>The risk score as the specification words it, an ordered rule table.\<close>

definition spec_risk_score :: "string \<Rightarrow> rat" where
  "spec_risk_score text_lower =
     (if py_in ''extremely risky'' text_lower then 9 / 10
      else if py_in ''high risk'' text_lower \<or> py_in ''risky'' text_lower then 8 / 10
      else if py_in ''low risk'' text_lower \<or> py_in ''safe'' text_lower then 2 / 10
      else 5 / 10)"


text \<open>The position of a provider's kind in the order Ollama, LM Studio, LocalAI, Gemini.\<close>

fun kind_rank :: "provider \<Rightarrow> nat" where
  "kind_rank (OllamaProvider c u m t) = 0"
| "kind_rank (LMStudioProvider c u m t) = 1"
| "kind_rank (LocalAIProvider c) = 2"
| "kind_rank (GeminiProvider c k m t) = 3"

text \<open>The configuration key of a provider's kind.\<close>

fun config_key :: "provider \<Rightarrow> string" where
  "config_key (OllamaProvider c u m t) = ''ollama''"
| "config_key (LMStudioProvider c u m t) = ''lmstudio''"
| "config_key (LocalAIProvider c) = ''localai''"
| "config_key (GeminiProvider c k m t) = ''gemini''"

text \<open>An entry of the provider configuration is present with a true \<^verbatim>\<open>enabled\<close>.\<close>

definition enabled :: "provider_configs \<Rightarrow> string \<Rightarrow> bool" where
  "enabled provider_configs key \<longleftrightarrow>
     (case map_of provider_configs key of
        None \<Rightarrow> False
      | Some c \<Rightarrow> truthy (dict_get c ''enabled'' (PyBool False)))"

text \<open>
  Outcomes for the scenarios of the specification: a successful outcome with a given
  recommendation and confidence, and the failure outcome of an adapter that timed out.
\<close>

definition signal :: "string \<Rightarrow> rat \<Rightarrow> AIResponse" where
  "signal rec conf =
     AIResponse True (PyStr ''reply'') conf rec (1 / 2) []
       [(''provider'', MVal (PyStr ''ollama'')), (''model'', MVal (PyStr ''llama3.2''))]"

definition timed_out :: AIResponse where
  "timed_out = AIResponse_defaults False (PyStr ''Error: '') []"

text \<open>
  Worlds and providers for the examples.  In \<open>quiet_world\<close> the round trip of Ollama
  times out, LM Studio answers with an error status, Gemini has no candidates and the
  LocalAI adapter returns a sell signal.  \<open>cancelled_world\<close> differs in that the round trip
  of Ollama ends in \<^verbatim>\<open>CancelledError\<close>, \<open>interrupted_world\<close> in that it ends in
  \<^verbatim>\<open>KeyboardInterrupt\<close>.
\<close>

definition quiet_world :: world where
  "quiet_world =
     \<lparr>ollama_http = (\<lambda>p. Raised (Exn ''TimeoutError'' [])),
      lmstudio_http = (\<lambda>p. ErrorStatus ''Service Unavailable''),
      gemini_http = (\<lambda>p. GNoCandidates),
      localai_analyze_token = (\<lambda>p. Inr (signal ''sell'' (6 / 10)))\<rparr>"




text \<open>
  Every exception that leaves the \<^verbatim>\<open>analyze_token\<close> of one of the providers derives
  from \<^verbatim>\<open>Exception\<close>.
\<close>

definition raise_only_Exception :: "world \<Rightarrow> provider list \<Rightarrow> bool" where
  "raise_only_Exception w providers \<longleftrightarrow>
     (\<forall>p \<in> set providers. \<forall>e. provider_analyze_token w p = Inl e \<longrightarrow> is_Exception e)"

text \<open>No wrapped call of one of the providers ends in an exception that stops the event loop.\<close>

definition loop_survives :: "world \<Rightarrow> provider list \<Rightarrow> bool" where
  "loop_survives w providers \<longleftrightarrow>
     (\<forall>p \<in> set providers. \<forall>e. safe_analyze_token w p = Inl e \<longrightarrow> \<not> stops_event_loop e)"

text \<open>The providers whose wrapped call returns a response.\<close>

definition answering :: "world \<Rightarrow> provider list \<Rightarrow> provider list" where
  "answering w providers = filter (\<lambda>p. \<not> isl (safe_analyze_token w p)) providers"

text \<open>A failed outcome carries the default scores.\<close>

definition failed_has_defaults :: "AIResponse \<Rightarrow> bool" where
  "failed_has_defaults r \<longleftrightarrow> (\<not> success r \<longrightarrow> confidence r = 0 \<and> risk_score r = 1 / 2)"

section \<open>Properties of the consensus\<close>

lemma py_upper_is_str: "is_str v \<Longrightarrow> \<exists>s. py_upper v = Inr s"
  by (cases v rule: is_str.cases) simp_all

lemma provider_label_upper:
  assumes "provider_name_is_str r"
  shows "\<exists>s. py_upper (dict_get (metadata r) ''provider'' (MVal (PyStr d))) = Inr s"
proof (cases "map_of (metadata r) ''provider''")
  case None
  then show ?thesis by (simp add: dict_get_def)
next
  case (Some v)
  with assms have "is_str v" by (simp add: provider_name_is_str_def)
  then show ?thesis using Some by (simp add: dict_get_def py_upper_is_str)
qed

lemma provider_sections_returns:
  "\<forall>r \<in> set rs. provider_name_is_str r \<Longrightarrow> \<exists>t. provider_sections i rs acc = Inr t"
proof (induction rs arbitrary: i acc)
  case Nil
  then show ?case by simp
next
  case (Cons r rs)
  from Cons.prems have "provider_name_is_str r" by simp
  from provider_label_upper [OF this]
  obtain s where s: "py_upper (dict_get (metadata r) ''provider''
      (MVal (PyStr (''Provider '' @ show_nat (i + 1))))) = Inr s"
    by blast
  from Cons.prems have "\<forall>x \<in> set rs. provider_name_is_str x" by simp
  from Cons.IH [OF this] show ?case
    unfolding provider_sections.simps Let_def s by simp
qed

text \<open>
  On a non-empty list of outcomes that name their adapters with strings, the method
  returns, and these are the fields of the decision.
\<close>

lemma consensus_nonempty:
  assumes "responses \<noteq> []" and "\<forall>r \<in> set responses. provider_name_is_str r"
  shows "\<exists>report. consensus responses =
           Inr (AIResponse True (PyStr report) (mean (map confidence responses))
                  (if votes ''buy'' responses > votes ''sell'' responses
                      \<and> votes ''buy'' responses > votes ''hold'' responses then ''buy''
                   else if votes ''sell'' responses > votes ''buy'' responses
                      \<and> votes ''sell'' responses > votes ''hold'' responses then ''sell''
                   else ''hold'')
                  (mean (map risk_score responses))
                  (take 10 (concat (map reasoning responses)))
                  [(''provider'', MVal (PyStr ''consensus'')),
                   (''provider_count'', MVal (PyInt (int (length responses)))),
                   (''individual_responses'', MResponses responses)])"
proof -
  obtain t where t: "provider_sections 0 responses
      (consensus_header (length responses)
         (if votes ''buy'' responses > votes ''sell'' responses
             \<and> votes ''buy'' responses > votes ''hold'' responses then ''buy''
          else if votes ''sell'' responses > votes ''buy'' responses
             \<and> votes ''sell'' responses > votes ''hold'' responses then ''sell''
          else ''hold'')
         (votes ''buy'' responses) (votes ''sell'' responses) (votes ''hold'' responses)
         (mean (map confidence responses)) (mean (map risk_score responses))) = Inr t"
    using provider_sections_returns [OF assms(2)] by blast
  show ?thesis
    using assms(1) t
    unfolding consensus_def py_truediv_def Let_def votes_def mean_def
    by simp
qed

lemma signal_label [simp]: "provider_name_is_str (signal rec conf)"
  by (simp add: signal_def provider_name_is_str_def)

lemma signal_fields [simp]:
  "recommendation (signal rec conf) = rec" "confidence (signal rec conf) = conf"
  "risk_score (signal rec conf) = 1 / 2" "success (signal rec conf)"
  by (simp_all add: signal_def)

lemma timed_out_fields [simp]:
  "recommendation timed_out = ''hold''" "confidence timed_out = 0"
  "risk_score timed_out = 1 / 2" "\<not> success timed_out" "provider_name_is_str timed_out"
  by (simp_all add: timed_out_def AIResponse_defaults_def provider_name_is_str_def)

lemma timed_out_is_adapter_outcome:
  "Ollama_analyze_token model (Raised (Exn ''TimeoutError'' [])) = Inr timed_out"
  by (simp add: timed_out_def base_only_classes_def)

text \<open>
  C1.  On every non-empty list of outcomes the consensus returns a decision, and its
  recommendation is the value among buy, sell and hold whose number of votes is strictly
  greater than the number of votes of each of the other two; when no value has strictly
  more votes than both others, ties included, the recommendation is hold.
\<close>

theorem consensus_recommendation_strict_winner:
  assumes "responses \<noteq> []" and "\<forall>r \<in> set responses. provider_name_is_str r"
  shows "\<exists>d. consensus responses = Inr d \<and>
           (let b = votes ''buy'' responses; s = votes ''sell'' responses;
                h = votes ''hold'' responses
            in (s < b \<and> h < b \<longrightarrow> recommendation d = ''buy'')
             \<and> (b < s \<and> h < s \<longrightarrow> recommendation d = ''sell'')
             \<and> (b < h \<and> s < h \<longrightarrow> recommendation d = ''hold'')
             \<and> (\<not> (s < b \<and> h < b) \<and> \<not> (b < s \<and> h < s) \<and> \<not> (b < h \<and> s < h)
                  \<longrightarrow> recommendation d = ''hold''))"
proof -
  from consensus_nonempty [OF assms] obtain d where
    d: "consensus responses = Inr d" and
    r: "recommendation d =
          (if votes ''buy'' responses > votes ''sell'' responses
              \<and> votes ''buy'' responses > votes ''hold'' responses then ''buy''
           else if votes ''sell'' responses > votes ''buy'' responses
              \<and> votes ''sell'' responses > votes ''hold'' responses then ''sell''
           else ''hold'')"
    by force
  have "let b = votes ''buy'' responses; s = votes ''sell'' responses;
            h = votes ''hold'' responses
        in (s < b \<and> h < b \<longrightarrow> recommendation d = ''buy'')
         \<and> (b < s \<and> h < s \<longrightarrow> recommendation d = ''sell'')
         \<and> (b < h \<and> s < h \<longrightarrow> recommendation d = ''hold'')
         \<and> (\<not> (s < b \<and> h < b) \<and> \<not> (b < s \<and> h < s) \<and> \<not> (b < h \<and> s < h)
              \<longrightarrow> recommendation d = ''hold'')"
    unfolding Let_def r by auto
  with d show ?thesis by blast
qed

text \<open>
  The theorem at four lists: two buy against one sell; one buy against two sell; one buy
  and a timed-out adapter next to a hold; one vote for each value.
\<close>

theorem consensus_recommendation_strict_winner_witness:
  "(\<exists>d. consensus [signal ''buy'' (8 / 10), signal ''buy'' (7 / 10), signal ''sell'' (6 / 10)] = Inr d
        \<and> recommendation d = ''buy'')
   \<and> (\<exists>d. consensus [signal ''buy'' (8 / 10), signal ''sell'' (7 / 10), signal ''sell'' (6 / 10)] = Inr d
        \<and> recommendation d = ''sell'')
   \<and> (\<exists>d. consensus [signal ''buy'' (8 / 10), timed_out, signal ''hold'' (6 / 10)] = Inr d
        \<and> recommendation d = ''hold'')
   \<and> (\<exists>d. consensus [signal ''buy'' (8 / 10), signal ''sell'' (7 / 10), signal ''hold'' (6 / 10)] = Inr d
        \<and> recommendation d = ''hold'')"
  using
    consensus_recommendation_strict_winner
      [of "[signal ''buy'' (8 / 10), signal ''buy'' (7 / 10), signal ''sell'' (6 / 10)]"]
    consensus_recommendation_strict_winner
      [of "[signal ''buy'' (8 / 10), signal ''sell'' (7 / 10), signal ''sell'' (6 / 10)]"]
    consensus_recommendation_strict_winner
      [of "[signal ''buy'' (8 / 10), timed_out, signal ''hold'' (6 / 10)]"]
    consensus_recommendation_strict_winner
      [of "[signal ''buy'' (8 / 10), signal ''sell'' (7 / 10), signal ''hold'' (6 / 10)]"]
  by (simp add: votes_def)

lemma parse_success [simp]:
  "success (Gemini_parse_analysis_response model text)"
  "success (LMStudio_parse_analysis_response model text)"
  "success (Ollama_parse_analysis_response model text)"
  by (simp_all add: Gemini_parse_analysis_response_def gemini_try_def
        LMStudio_parse_analysis_response_def lmstudio_try_def
        Ollama_parse_analysis_response_def ollama_try_def AIResponse_defaults_def
        split: sum.splits)

lemma adapters_failed_has_defaults:
  "Ollama_analyze_token model out = Inr r \<Longrightarrow> failed_has_defaults r"
  "LMStudio_analyze_token model out = Inr r \<Longrightarrow> failed_has_defaults r"
  "Gemini_analyze_token model gout = Inr r \<Longrightarrow> failed_has_defaults r"
proof -
  show "Ollama_analyze_token model out = Inr r \<Longrightarrow> failed_has_defaults r"
    by (cases out)
      (auto simp: failed_has_defaults_def AIResponse_defaults_def split: if_splits)
  show "LMStudio_analyze_token model out = Inr r \<Longrightarrow> failed_has_defaults r"
    by (cases out)
      (auto simp: failed_has_defaults_def AIResponse_defaults_def split: if_splits)
  show "Gemini_analyze_token model gout = Inr r \<Longrightarrow> failed_has_defaults r"
    by (cases gout)
      (auto simp: failed_has_defaults_def AIResponse_defaults_def split: if_splits)
qed

lemma safe_analyze_token_failure:
  assumes "provider_analyze_token w provider = Inl e" and "is_Exception e"
  shows "safe_analyze_token w provider =
           Inr (AIResponse False
                  (PyStr (''Provider '' @ name provider @ '' failed: '' @ str_exn e))
                  0 ''hold'' (1 / 2) []
                  [(''provider'', MVal (PyStr (name provider))),
                   (''error'', MVal (PyStr (str_exn e)))])"
  using assms by (simp add: safe_analyze_token_def AIResponse_defaults_def)

text \<open>
  C2.  On every non-empty list of outcomes the confidence of the consensus decision is
  the arithmetic mean of the confidences of all outcomes, and its risk the arithmetic
  mean of their risks.  A failed outcome is in the list like any other, with the default
  scores: every failure outcome that the Ollama, LM Studio and Gemini adapters return,
  and the one the manager builds for a provider whose call raised an \<^verbatim>\<open>Exception\<close>, has
  confidence 0 and risk 1/2.
\<close>

theorem consensus_scores_are_means:
  assumes "responses \<noteq> []" and "\<forall>r \<in> set responses. provider_name_is_str r"
  shows "(\<exists>d. consensus responses = Inr d
              \<and> confidence d = mean (map confidence responses)
              \<and> risk_score d = mean (map risk_score responses))
         \<and> (\<forall>model out r. Ollama_analyze_token model out = Inr r \<longrightarrow> failed_has_defaults r)
         \<and> (\<forall>model out r. LMStudio_analyze_token model out = Inr r \<longrightarrow> failed_has_defaults r)
         \<and> (\<forall>model out r. Gemini_analyze_token model out = Inr r \<longrightarrow> failed_has_defaults r)
         \<and> (\<forall>w provider e. provider_analyze_token w provider = Inl e \<and> is_Exception e \<longrightarrow>
               (\<exists>r. safe_analyze_token w provider = Inr r \<and> \<not> success r
                     \<and> confidence r = 0 \<and> risk_score r = 1 / 2))"
proof -
  from consensus_nonempty [OF assms]
  have "\<exists>d. consensus responses = Inr d
              \<and> confidence d = mean (map confidence responses)
              \<and> risk_score d = mean (map risk_score responses)"
    by force
  moreover
  have "\<forall>w provider e. provider_analyze_token w provider = Inl e \<and> is_Exception e \<longrightarrow>
               (\<exists>r. safe_analyze_token w provider = Inr r \<and> \<not> success r
                     \<and> confidence r = 0 \<and> risk_score r = 1 / 2)"
    by (simp add: safe_analyze_token_failure)
  ultimately show ?thesis
    using adapters_failed_has_defaults by blast
qed

text \<open>
  The second scenario of the specification: two successful outcomes (buy, 0.9) and
  (buy, 0.8) and an adapter that timed out give the confidence (0.9 + 0.8 + 0.0) / 3.
  The last part is about a LocalAI provider whose call raises.
\<close>

theorem consensus_scores_are_means_witness:
  "(\<exists>d. consensus [timed_out, signal ''buy'' (9 / 10), signal ''buy'' (8 / 10)] = Inr d
        \<and> confidence d = 17 / 30 \<and> risk_score d = 1 / 2)
   \<and> Ollama_analyze_token (PyStr ''llama3.2'') (Raised (Exn ''TimeoutError'' [])) = Inr timed_out
   \<and> \<not> success timed_out \<and> confidence timed_out = 0 \<and> risk_score timed_out = 1 / 2
   \<and> (\<exists>r. safe_analyze_token
             \<lparr>ollama_http = (\<lambda>p. Raised (Exn ''TimeoutError'' [])),
              lmstudio_http = (\<lambda>p. Raised (Exn ''TimeoutError'' [])),
              gemini_http = (\<lambda>p. GNoCandidates),
              localai_analyze_token = (\<lambda>p. Inl (Exn ''RuntimeError'' ''boom''))\<rparr>
             (LocalAIProvider []) = Inr r
          \<and> \<not> success r \<and> confidence r = 0 \<and> risk_score r = 1 / 2)"
proof -
  let ?w = "\<lparr>ollama_http = (\<lambda>p. Raised (Exn ''TimeoutError'' [])),
              lmstudio_http = (\<lambda>p. Raised (Exn ''TimeoutError'' [])),
              gemini_http = (\<lambda>p. GNoCandidates),
              localai_analyze_token = (\<lambda>p. Inl (Exn ''RuntimeError'' ''boom''))\<rparr>"
  note t = consensus_scores_are_means
      [of "[timed_out, signal ''buy'' (9 / 10), signal ''buy'' (8 / 10)]"]
  have n: "[timed_out, signal ''buy'' (9 / 10), signal ''buy'' (8 / 10)] \<noteq> []"
    and l: "\<forall>r \<in> set [timed_out, signal ''buy'' (9 / 10), signal ''buy'' (8 / 10)].
              provider_name_is_str r"
    by simp_all
  from t [OF n l] have a: "\<exists>d. consensus [timed_out, signal ''buy'' (9 / 10), signal ''buy'' (8 / 10)] = Inr d
        \<and> confidence d = 17 / 30 \<and> risk_score d = 1 / 2"
    by (simp add: mean_def)
  have e: "provider_analyze_token ?w (LocalAIProvider []) = Inl (Exn ''RuntimeError'' ''boom'')
           \<and> is_Exception (Exn ''RuntimeError'' ''boom'')"
    by (simp add: base_only_classes_def)
  from t [OF n l] have "\<forall>w provider e. provider_analyze_token w provider = Inl e \<and> is_Exception e \<longrightarrow>
               (\<exists>r. safe_analyze_token w provider = Inr r \<and> \<not> success r
                     \<and> confidence r = 0 \<and> risk_score r = 1 / 2)"
    by blast
  with e have b: "\<exists>r. safe_analyze_token ?w (LocalAIProvider []) = Inr r
          \<and> \<not> success r \<and> confidence r = 0 \<and> risk_score r = 1 / 2"
    by blast
  from a b timed_out_is_adapter_outcome [of "PyStr ''llama3.2''"] show ?thesis
    by simp
qed

text \<open>
  C6.  On the empty list of outcomes the consensus returns the decision with
  \<^verbatim>\<open>success=False\<close> and the fixed message, all other fields at their defaults; so
  does the method when there is no provider.  No mean is taken: the quotient by the
  number of outcomes, which would raise on the empty list, is not evaluated.
\<close>

theorem consensus_of_no_outcomes:
  "consensus [] =
     Inr (AIResponse False (PyStr ''No AI providers available for analysis'')
            0 ''hold'' (1 / 2) [] [])
   \<and> get_consensus_analysis w [] =
     Inr (AIResponse False (PyStr ''No AI providers available for analysis'')
            0 ''hold'' (1 / 2) [] [])
   \<and> py_truediv (sum_list (map confidence [])) (length ([] :: AIResponse list))
       = Inl (Exn ''ZeroDivisionError'' ''division by zero'')"
  by (simp add: consensus_def get_consensus_analysis_def analyze_token_def
        AIResponse_defaults_def py_truediv_def)

section \<open>Properties of the orchestrator\<close>

lemma adapter_escapes_iff:
  "Ollama_analyze_token model out = Inl e \<longleftrightarrow> out = Raised e \<and> \<not> is_Exception e"
  "LMStudio_analyze_token model out = Inl e \<longleftrightarrow> out = Raised e \<and> \<not> is_Exception e"
  "Gemini_analyze_token model gout = Inl e \<longleftrightarrow> gout = GRaised e \<and> \<not> is_Exception e"
proof -
  show "Ollama_analyze_token model out = Inl e \<longleftrightarrow> out = Raised e \<and> \<not> is_Exception e"
    by (cases out) auto
  show "LMStudio_analyze_token model out = Inl e \<longleftrightarrow> out = Raised e \<and> \<not> is_Exception e"
    by (cases out) auto
  show "Gemini_analyze_token model gout = Inl e \<longleftrightarrow> gout = GRaised e \<and> \<not> is_Exception e"
    by (cases gout) auto
qed



lemma safe_analyze_token_Inl_iff:
  "safe_analyze_token w p = Inl e \<longleftrightarrow> provider_analyze_token w p = Inl e \<and> \<not> is_Exception e"
  by (auto simp: safe_analyze_token_def split: sum.splits if_splits)

lemma loop_stoppers_stop: "e \<in> set (loop_stoppers results) \<Longrightarrow> stops_event_loop e"
  by (induction results rule: loop_stoppers.induct) (auto split: if_splits)

lemma loop_stoppers_empty_iff:
  "loop_stoppers results = [] \<longleftrightarrow> (\<forall>e. Inl e \<in> set results \<longrightarrow> \<not> stops_event_loop e)"
  by (induction results rule: loop_stoppers.induct) auto

lemma gather_returns: "loop_stoppers results = [] \<Longrightarrow> gather results = Inr results"
  by (simp add: gather_def)

lemma gather_stops:
  assumes "loop_stoppers results \<noteq> []"
  shows "\<exists>e. gather results = Inl e \<and> stops_event_loop e"
proof -
  from assms obtain e es where r: "loop_stoppers results = e # es"
    by (cases "loop_stoppers results") auto
  then have "e \<in> set (loop_stoppers results)" by simp
  then have "stops_event_loop e" by (rule loop_stoppers_stop)
  with r show ?thesis by (simp add: gather_def)
qed

lemma loop_survives_iff:
  "loop_survives w providers \<longleftrightarrow> loop_stoppers (map (safe_analyze_token w) providers) = []"
proof -
  have "(\<forall>e. Inl e \<in> set (map (safe_analyze_token w) providers) \<longrightarrow> \<not> stops_event_loop e)
          \<longleftrightarrow> (\<forall>p \<in> set providers. \<forall>e. safe_analyze_token w p = Inl e \<longrightarrow> \<not> stops_event_loop e)"
    by (simp add: image_iff) metis
  then show ?thesis
    unfolding loop_survives_def loop_stoppers_empty_iff by simp
qed

lemma valid_responses_filter:
  "map Inr (valid_responses results) = filter (\<lambda>x. \<not> isl x) results"
  by (induction results rule: valid_responses.induct) auto

lemma valid_responses_answering:
  "map Inr (valid_responses (map (safe_analyze_token w) providers))
     = map (safe_analyze_token w) (answering w providers)"
  by (simp add: valid_responses_filter answering_def filter_map comp_def)

text \<open>When the event loop survives, the outcomes are those of the answering providers.\<close>

lemma analyze_token_survives:
  assumes "loop_survives w providers"
  shows "analyze_token w providers
           = Inr (valid_responses (map (safe_analyze_token w) providers))"
proof (cases "providers = []")
  case True
  then show ?thesis by (simp add: analyze_token_def)
next
  case False
  from assms have "gather (map (safe_analyze_token w) providers)
                     = Inr (map (safe_analyze_token w) providers)"
    by (simp add: loop_survives_iff gather_returns)
  with False show ?thesis by (simp add: analyze_token_def)
qed

lemma analyze_token_stops:
  assumes "\<not> loop_survives w providers"
  shows "\<exists>e. analyze_token w providers = Inl e \<and> stops_event_loop e"
proof -
  from assms have n: "loop_stoppers (map (safe_analyze_token w) providers) \<noteq> []"
    by (simp add: loop_survives_iff)
  then have "providers \<noteq> []" by auto
  with gather_stops [OF n] show ?thesis by (auto simp: analyze_token_def)
qed

lemma analyze_token_Inr:
  assumes "analyze_token w providers = Inr rs"
  shows "loop_survives w providers"
    and "map Inr rs = map (safe_analyze_token w) (answering w providers)"
proof -
  show s: "loop_survives w providers"
    using assms analyze_token_stops [of w providers] by auto
  from analyze_token_survives [OF s] assms
  have "rs = valid_responses (map (safe_analyze_token w) providers)" by simp
  then show "map Inr rs = map (safe_analyze_token w) (answering w providers)"
    by (simp only: valid_responses_answering)
qed

lemma raise_only_Exception_answering:
  assumes "raise_only_Exception w providers"
  shows "loop_survives w providers" and "answering w providers = providers"
proof -
  have none: "safe_analyze_token w p \<noteq> Inl e" if "p \<in> set providers" for p e
    using assms that unfolding raise_only_Exception_def safe_analyze_token_Inl_iff by blast
  then show "loop_survives w providers"
    by (simp add: loop_survives_def)
  have "\<not> isl (safe_analyze_token w p)" if "p \<in> set providers" for p
    using none [OF that] by (cases "safe_analyze_token w p") auto
  then show "answering w providers = providers"
    by (simp add: answering_def)
qed

lemma analyze_token_gathers:
  assumes "raise_only_Exception w providers"
  shows "\<exists>rs. analyze_token w providers = Inr rs
              \<and> map Inr rs = map (safe_analyze_token w) providers"
  using analyze_token_survives [OF raise_only_Exception_answering(1) [OF assms]]
    valid_responses_answering [of w providers]
    raise_only_Exception_answering(2) [OF assms]
  by simp

lemma map_Inr_eq: "map Inr xs = map Inr ys \<Longrightarrow> xs = ys"
  by (induction xs arbitrary: ys) auto





section \<open>Properties of the response interpreters\<close>

lemma startswith_iff: "startswith s p \<longleftrightarrow> (\<exists>r. s = p @ r)"
  by (induction s p rule: startswith.induct) auto

lemma py_in_iff: "py_in sub s \<longleftrightarrow> (\<exists>a b. s = a @ sub @ b)"
proof (induction s)
  case Nil
  then show ?case by auto
next
  case (Cons c cs)
  show ?case
  proof
    assume "py_in sub (c # cs)"
    then consider "startswith (c # cs) sub" | "py_in sub cs" by auto
    then show "\<exists>a b. c # cs = a @ sub @ b"
    proof cases
      case 1
      then obtain r where "c # cs = sub @ r" by (auto simp: startswith_iff)
      then have "c # cs = [] @ sub @ r" by simp
      then show ?thesis by blast
    next
      case 2
      with Cons obtain a b where "cs = a @ sub @ b" by auto
      then have "c # cs = (c # a) @ sub @ b" by simp
      then show ?thesis by blast
    qed
  next
    assume "\<exists>a b. c # cs = a @ sub @ b"
    then obtain a b where ab: "c # cs = a @ sub @ b" by auto
    show "py_in sub (c # cs)"
    proof (cases a)
      case Nil
      with ab have "startswith (c # cs) sub" by (auto simp: startswith_iff)
      then show ?thesis by simp
    next
      case (Cons x a')
      with ab have "cs = a' @ sub @ b" by simp
      with Cons.IH have "py_in sub cs" by blast
      then show ?thesis by simp
    qed
  qed
qed

lemma py_in_trans: "py_in small big \<Longrightarrow> py_in big s \<Longrightarrow> py_in small s"
proof -
  assume "py_in small big" and "py_in big s"
  then obtain a b c d where "big = a @ small @ b" and "s = c @ big @ d"
    by (auto simp: py_in_iff)
  then have "s = (c @ a) @ small @ (b @ d)" by simp
  then show ?thesis unfolding py_in_iff by blast
qed

text \<open>
  In the Gemini interpreter the branch for \<^verbatim>\<open>extremely risky\<close> comes after the
  branch for \<^verbatim>\<open>risky\<close>, a substring of it: the score 0.9 is never assigned.
\<close>

lemma extremely_risky_is_risky:
  "py_in ''extremely risky'' text_lower \<Longrightarrow> py_in ''risky'' text_lower"
  by (rule py_in_trans [of "''risky''" "''extremely risky''"]) simp_all

lemma gemini_risk_score_never_extreme: "gemini_risk_score text_lower \<noteq> 9 / 10"
  using extremely_risky_is_risky [of text_lower]
  by (auto simp: gemini_risk_score_def)

lemma parse_of_str:
  "Gemini_parse_analysis_response model (PyStr s) =
     AIResponse True (PyStr s) (gemini_confidence (lower s)) (gemini_recommendation (lower s))
       (gemini_risk_score (lower s)) (take 5 (gemini_reasoning (split_lines s)))
       [(''provider'', MVal (PyStr ''gemini'')), (''model'', MVal model)]"
  "LMStudio_parse_analysis_response model (PyStr s) =
     AIResponse True (PyStr s) (lmstudio_confidence (lower s))
       (lmstudio_recommendation (lower s))
       (lmstudio_risk_score (lower s)) (take 5 (lmstudio_reasoning (split_lines s)))
       [(''provider'', MVal (PyStr ''lmstudio'')), (''model'', MVal model)]"
  "Ollama_parse_analysis_response model (PyStr s) =
     AIResponse True (PyStr s) (ollama_confidence (lower s)) (ollama_recommendation (lower s))
       (ollama_risk_score (lower s)) (take 5 (ollama_reasoning (split_lines s)))
       [(''provider'', MVal (PyStr ''ollama'')), (''model'', MVal model)]"
  by (simp_all add: Gemini_parse_analysis_response_def gemini_try_def
        LMStudio_parse_analysis_response_def lmstudio_try_def
        Ollama_parse_analysis_response_def ollama_try_def)

lemma try_raises_Exception:
  "gemini_try model reply = Inl e \<Longrightarrow> is_Exception e"
  "lmstudio_try model reply = Inl e \<Longrightarrow> is_Exception e"
  "ollama_try model reply = Inl e \<Longrightarrow> is_Exception e"
  by (cases reply;
      auto simp: gemini_try_def lmstudio_try_def ollama_try_def no_attribute_def
        base_only_classes_def)+

lemma try_raises_iff:
  "(\<exists>e. gemini_try model text = Inl e) \<longleftrightarrow> (\<forall>s. text \<noteq> PyStr s)"
  "(\<exists>e. lmstudio_try model text = Inl e) \<longleftrightarrow> (\<forall>s. text \<noteq> PyStr s)"
  "(\<exists>e. ollama_try model text = Inl e) \<longleftrightarrow> (\<forall>s. text \<noteq> PyStr s)"
  by (cases "text"; simp add: gemini_try_def lmstudio_try_def ollama_try_def)+

text \<open>
  C4, as the code has it.  For every reply text the Gemini and the LM Studio interpreter
  check the buy triggers first: the recommendation is buy when \<^verbatim>\<open>recommend buy\<close> or
  \<^verbatim>\<open>should buy\<close> occurs in the lowercased text; otherwise sell when one of
  \<^verbatim>\<open>recommend sell\<close>, \<^verbatim>\<open>should sell\<close>, \<^verbatim>\<open>avoid\<close>, \<^verbatim>\<open>skip\<close> occurs; otherwise
  hold.  The Ollama interpreter gives buy when both \<^verbatim>\<open>buy\<close> and \<^verbatim>\<open>recommend\<close>
  occur, otherwise sell when both \<^verbatim>\<open>sell\<close> and \<^verbatim>\<open>recommend\<close> occur, otherwise hold.
\<close>

theorem recommendation_buy_triggers_first:
  "recommendation (Gemini_parse_analysis_response model (PyStr reply)) =
     (if buy_trigger (lower reply) then ''buy''
      else if sell_trigger (lower reply) then ''sell'' else ''hold'')
   \<and> recommendation (LMStudio_parse_analysis_response model (PyStr reply)) =
     (if buy_trigger (lower reply) then ''buy''
      else if sell_trigger (lower reply) then ''sell'' else ''hold'')
   \<and> recommendation (Ollama_parse_analysis_response model (PyStr reply)) =
     (if py_in ''buy'' (lower reply) \<and> py_in ''recommend'' (lower reply) then ''buy''
      else if py_in ''sell'' (lower reply) \<and> py_in ''recommend'' (lower reply) then ''sell''
      else ''hold'')"
  by (simp add: parse_of_str gemini_recommendation_def lmstudio_recommendation_def
        ollama_recommendation_def buy_trigger_def sell_trigger_def)

text \<open>
  C4 as the claim words it fails.  A reply with a buy trigger and a sell trigger: the
  claim's table, sell triggers first, gives sell, the Gemini interpreter gives buy.
  A reply with the sell trigger \<^verbatim>\<open>avoid\<close> alone: the claim's table gives sell, the
  Ollama interpreter gives hold.
\<close>

theorem recommendation_sell_first_counterexample:
  "spec_recommendation (lower ''I recommend buy, do not skip this one'') = ''sell''
   \<and> recommendation (Gemini_parse_analysis_response (PyStr ''gemini-1.5-flash'')
                       (PyStr ''I recommend buy, do not skip this one'')) = ''buy''
   \<and> spec_recommendation (lower ''Avoid this token'') = ''sell''
   \<and> recommendation (Ollama_parse_analysis_response (PyStr ''llama3.2'')
                       (PyStr ''Avoid this token'')) = ''hold''"
  by code_simp

text \<open>
  C5, as the code has it by design.  For every reply text whose lowercased form does not
  contain \<^verbatim>\<open>extremely risky\<close>: the Gemini interpreter gives 0.8 when \<^verbatim>\<open>high risk\<close>
  or \<^verbatim>\<open>risky\<close> occurs, otherwise 0.2 when \<^verbatim>\<open>low risk\<close> or \<^verbatim>\<open>safe\<close> occurs,
  otherwise 0.5, which is the specification's table; the LM Studio interpreter does the
  same, except that it gives 0.9 instead of 0.5 when \<^verbatim>\<open>very dangerous\<close> occurs.  For
  every reply text the Ollama interpreter gives 0.8 when \<^verbatim>\<open>high risk\<close> occurs,
  otherwise 0.2 when \<^verbatim>\<open>low risk\<close> occurs, otherwise 0.9 when \<^verbatim>\<open>very risky\<close> or
  \<^verbatim>\<open>extremely risky\<close> occurs, otherwise 0.5.
\<close>

theorem risk_score_rule_tables:
  "(\<not> py_in ''extremely risky'' (lower reply) \<longrightarrow>
      risk_score (Gemini_parse_analysis_response model (PyStr reply))
        = spec_risk_score (lower reply)
      \<and> risk_score (Gemini_parse_analysis_response model (PyStr reply)) =
          (if py_in ''high risk'' (lower reply) \<or> py_in ''risky'' (lower reply) then 8 / 10
           else if py_in ''low risk'' (lower reply) \<or> py_in ''safe'' (lower reply) then 2 / 10
           else 5 / 10)
      \<and> risk_score (LMStudio_parse_analysis_response model (PyStr reply)) =
          (if py_in ''high risk'' (lower reply) \<or> py_in ''risky'' (lower reply) then 8 / 10
           else if py_in ''low risk'' (lower reply) \<or> py_in ''safe'' (lower reply) then 2 / 10
           else if py_in ''very dangerous'' (lower reply) then 9 / 10
           else 5 / 10))
   \<and> risk_score (Ollama_parse_analysis_response model (PyStr reply)) =
       (if py_in ''high risk'' (lower reply) then 8 / 10
        else if py_in ''low risk'' (lower reply) then 2 / 10
        else if py_in ''very risky'' (lower reply) \<or> py_in ''extremely risky'' (lower reply)
          then 9 / 10
        else 5 / 10)"
  by (simp add: parse_of_str gemini_risk_score_def lmstudio_risk_score_def
        ollama_risk_score_def spec_risk_score_def)

text \<open>
  The fifth scenario of the specification, a reply with \<^verbatim>\<open>Low risk\<close> and without
  \<^verbatim>\<open>extremely risky\<close>: the three interpreters give 0.2.
\<close>

theorem risk_score_rule_tables_witness:
  "\<not> py_in ''extremely risky'' (lower ''We recommend buy. - Low risk profile.'')
   \<and> risk_score (Gemini_parse_analysis_response (PyStr ''gemini-1.5-flash'')
                    (PyStr ''We recommend buy. - Low risk profile.'')) = 2 / 10
   \<and> risk_score (LMStudio_parse_analysis_response (PyStr ''gemini-1.5-flash'')
                    (PyStr ''We recommend buy. - Low risk profile.'')) = 2 / 10
   \<and> risk_score (Ollama_parse_analysis_response (PyStr ''gemini-1.5-flash'')
                    (PyStr ''We recommend buy. - Low risk profile.'')) = 2 / 10"
proof -
  have h: "\<not> py_in ''extremely risky'' (lower ''We recommend buy. - Low risk profile.'')"
    by code_simp
  have l: "py_in ''low risk'' (lower ''We recommend buy. - Low risk profile.'')"
    by code_simp
  have r: "\<not> py_in ''high risk'' (lower ''We recommend buy. - Low risk profile.'')"
          "\<not> py_in ''risky'' (lower ''We recommend buy. - Low risk profile.'')"
    by code_simp+
  from h l r
    risk_score_rule_tables [of "''We recommend buy. - Low risk profile.''"
                               "PyStr ''gemini-1.5-flash''"]
  show ?thesis by simp
qed

text \<open>
  C5 as the claim words it fails.  \<^verbatim>\<open>very dangerous\<close> is none of the claim's phrases,
  so the claim's table gives 0.5; the LM Studio interpreter gives 0.9.  \<^verbatim>\<open>risky\<close> is
  one of the claim's phrases for 0.8; the Ollama interpreter has no such rule and gives
  0.5.
\<close>

theorem risk_score_table_counterexample:
  "spec_risk_score (lower ''This token looks very dangerous'') = 5 / 10
   \<and> risk_score (LMStudio_parse_analysis_response (PyStr ''local-model'')
                    (PyStr ''This token looks very dangerous'')) = 9 / 10
   \<and> spec_risk_score (lower ''A risky token'') = 8 / 10
   \<and> risk_score (Ollama_parse_analysis_response (PyStr ''llama3.2'')
                    (PyStr ''A risky token'')) = 5 / 10"
  by code_simp

text \<open>
  C7.  Each interpreter returns an outcome with \<^verbatim>\<open>success=True\<close> on every reply.
  The extraction raises exactly when the reply is not a string; the outcome then carries
  the raw reply as its analysis, the default confidence 0, risk 1/2 and recommendation
  hold, no reasoning, and the message of the exception under \<^verbatim>\<open>parse_error\<close> in its
  metadata, next to the provider and the model.
\<close>

theorem parse_error_is_not_a_failure:
  "success (Gemini_parse_analysis_response model reply)
   \<and> success (LMStudio_parse_analysis_response model reply)
   \<and> success (Ollama_parse_analysis_response model reply)
   \<and> ((\<exists>e. gemini_try model reply = Inl e) \<longleftrightarrow> (\<forall>s. reply \<noteq> PyStr s))
   \<and> ((\<exists>e. lmstudio_try model reply = Inl e) \<longleftrightarrow> (\<forall>s. reply \<noteq> PyStr s))
   \<and> ((\<exists>e. ollama_try model reply = Inl e) \<longleftrightarrow> (\<forall>s. reply \<noteq> PyStr s))
   \<and> (\<forall>e. gemini_try model reply = Inl e \<longrightarrow>
         Gemini_parse_analysis_response model reply =
           AIResponse True reply 0 ''hold'' (1 / 2) []
             [(''provider'', MVal (PyStr ''gemini'')), (''model'', MVal model),
              (''parse_error'', MVal (PyStr (str_exn e)))])
   \<and> (\<forall>e. lmstudio_try model reply = Inl e \<longrightarrow>
         LMStudio_parse_analysis_response model reply =
           AIResponse True reply 0 ''hold'' (1 / 2) []
             [(''provider'', MVal (PyStr ''lmstudio'')), (''model'', MVal model),
              (''parse_error'', MVal (PyStr (str_exn e)))])
   \<and> (\<forall>e. ollama_try model reply = Inl e \<longrightarrow>
         Ollama_parse_analysis_response model reply =
           AIResponse True reply 0 ''hold'' (1 / 2) []
             [(''provider'', MVal (PyStr ''ollama'')), (''model'', MVal model),
              (''parse_error'', MVal (PyStr (str_exn e)))])"
proof -
  have g: "\<forall>e. gemini_try model reply = Inl e \<longrightarrow>
         Gemini_parse_analysis_response model reply =
           AIResponse True reply 0 ''hold'' (1 / 2) []
             [(''provider'', MVal (PyStr ''gemini'')), (''model'', MVal model),
              (''parse_error'', MVal (PyStr (str_exn e)))]"
    by (simp add: Gemini_parse_analysis_response_def AIResponse_defaults_def)
  have l: "\<forall>e. lmstudio_try model reply = Inl e \<longrightarrow>
         LMStudio_parse_analysis_response model reply =
           AIResponse True reply 0 ''hold'' (1 / 2) []
             [(''provider'', MVal (PyStr ''lmstudio'')), (''model'', MVal model),
              (''parse_error'', MVal (PyStr (str_exn e)))]"
    by (simp add: LMStudio_parse_analysis_response_def AIResponse_defaults_def)
  have o: "\<forall>e. ollama_try model reply = Inl e \<longrightarrow>
         Ollama_parse_analysis_response model reply =
           AIResponse True reply 0 ''hold'' (1 / 2) []
             [(''provider'', MVal (PyStr ''ollama'')), (''model'', MVal model),
              (''parse_error'', MVal (PyStr (str_exn e)))]"
    by (simp add: Ollama_parse_analysis_response_def AIResponse_defaults_def)
  from g l o show ?thesis
    by (simp add: try_raises_iff)
qed

text \<open>
  A backend that answers \<^verbatim>\<open>null\<close> where the text is expected: the extraction raises
  the \<^verbatim>\<open>AttributeError\<close> of \<^verbatim>\<open>None.lower()\<close>, and the outcome is a success with the
  note.
\<close>

theorem parse_error_is_not_a_failure_witness:
  "gemini_try (PyStr ''gemini-1.5-flash'') PyNone
     = Inl (no_attribute ''NoneType'' ''lower'')
   \<and> Gemini_parse_analysis_response (PyStr ''gemini-1.5-flash'') PyNone =
       AIResponse True PyNone 0 ''hold'' (1 / 2) []
         [(''provider'', MVal (PyStr ''gemini'')),
          (''model'', MVal (PyStr ''gemini-1.5-flash'')),
          (''parse_error'', MVal (PyStr (str_exn (no_attribute ''NoneType'' ''lower''))))]
   \<and> ollama_try (PyStr ''gemini-1.5-flash'') PyNone
     = Inl (no_attribute ''NoneType'' ''lower'')
   \<and> Ollama_parse_analysis_response (PyStr ''gemini-1.5-flash'') PyNone =
       AIResponse True PyNone 0 ''hold'' (1 / 2) []
         [(''provider'', MVal (PyStr ''ollama'')),
          (''model'', MVal (PyStr ''gemini-1.5-flash'')),
          (''parse_error'', MVal (PyStr (str_exn (no_attribute ''NoneType'' ''lower''))))]"
proof -
  have g: "gemini_try (PyStr ''gemini-1.5-flash'') PyNone
             = Inl (no_attribute ''NoneType'' ''lower'')"
    by (simp add: gemini_try_def)
  have o: "ollama_try (PyStr ''gemini-1.5-flash'') PyNone
             = Inl (no_attribute ''NoneType'' ''lower'')"
    by (simp add: ollama_try_def)
  from g o parse_error_is_not_a_failure [of "PyStr ''gemini-1.5-flash''" PyNone]
  show ?thesis by simp
qed

section \<open>Properties of the registry\<close>

lemma setup_block_append:
  "setup_block key init pc providers = providers @ setup_block key init pc []"
  by (simp add: setup_block_def split: option.splits sum.splits)

lemma setup_block_cong:
  "map_of pc key = map_of pc' key \<Longrightarrow>
   setup_block key init pc providers = setup_block key init pc' providers"
  by (simp add: setup_block_def)



text \<open>The four blocks of the registry, each on its own.\<close>

lemma setup_providers_blocks:
  "setup_providers raises config =
     setup_block ''ollama'' OllamaProvider_init (dict_get config ''providers'' []) []
     @ setup_block ''lmstudio'' LMStudioProvider_init (dict_get config ''providers'' []) []
     @ setup_block ''localai'' (LocalAIProvider_init raises) (dict_get config ''providers'' []) []
     @ setup_block ''gemini'' GeminiProvider_init (dict_get config ''providers'' []) []"
proof -
  let ?pc = "dict_get config ''providers'' []"
  let ?a = "setup_block ''ollama'' OllamaProvider_init ?pc []"
  let ?b = "setup_block ''lmstudio'' LMStudioProvider_init ?pc ?a"
  let ?c = "setup_block ''localai'' (LocalAIProvider_init raises) ?pc ?b"
  have "setup_providers raises config = setup_block ''gemini'' GeminiProvider_init ?pc ?c"
    by (simp add: setup_providers_def Let_def)
  also have "\<dots> = ?c @ setup_block ''gemini'' GeminiProvider_init ?pc []"
    by (rule setup_block_append)
  also have "?c = ?b @ setup_block ''localai'' (LocalAIProvider_init raises) ?pc []"
    by (rule setup_block_append)
  also have "?b = ?a @ setup_block ''lmstudio'' LMStudioProvider_init ?pc []"
    by (rule setup_block_append)
  finally show ?thesis by simp
qed

lemma setup_providers_cong:
  assumes "map_of (dict_get config ''providers'' []) ''ollama''
             = map_of (dict_get config' ''providers'' []) ''ollama''"
    and "map_of (dict_get config ''providers'' []) ''lmstudio''
             = map_of (dict_get config' ''providers'' []) ''lmstudio''"
    and "map_of (dict_get config ''providers'' []) ''localai''
             = map_of (dict_get config' ''providers'' []) ''localai''"
    and "map_of (dict_get config ''providers'' []) ''gemini''
             = map_of (dict_get config' ''providers'' []) ''gemini''"
  shows "setup_providers raises config = setup_providers raises config'"
  unfolding setup_providers_blocks
  using setup_block_cong [OF assms(1)] setup_block_cong [OF assms(2)]
    setup_block_cong [OF assms(3)] setup_block_cong [OF assms(4)]
  by simp





lemma setup_block_cases:
  "setup_block key init pc [] = []
   \<or> (\<exists>c p. map_of pc key = Some c \<and> truthy (dict_get c ''enabled'' (PyBool False))
             \<and> init c = Inr p \<and> setup_block key init pc [] = [p])"
  by (simp add: setup_block_def split: option.splits sum.splits)

lemma setup_block_enabled:
  "p \<in> set (setup_block key init pc []) \<Longrightarrow> enabled pc key"
  using setup_block_cases [of key init pc] by (auto simp: enabled_def)

lemma setup_block_init:
  "p \<in> set (setup_block key init pc []) \<Longrightarrow> \<exists>c. init c = Inr p"
  using setup_block_cases [of key init pc] by auto

lemma setup_block_sorted: "sorted_wrt (<) (map kind_rank (setup_block key init pc []))"
  using setup_block_cases [of key init pc] by auto

lemma init_kinds:
  "OllamaProvider_init c = Inr p \<Longrightarrow> kind_rank p = 0 \<and> config_key p = ''ollama''"
  "LMStudioProvider_init c = Inr p \<Longrightarrow> kind_rank p = 1 \<and> config_key p = ''lmstudio''"
  "LocalAIProvider_init raises c = Inr p \<Longrightarrow> kind_rank p = 2 \<and> config_key p = ''localai''"
  "GeminiProvider_init c = Inr p \<Longrightarrow> kind_rank p = 3 \<and> config_key p = ''gemini''"
  by (auto simp: OllamaProvider_init_def LMStudioProvider_init_def LocalAIProvider_init_def
        GeminiProvider_init_def Let_def split: option.splits if_splits)

lemma block_kinds:
  "p \<in> set (setup_block ''ollama'' OllamaProvider_init pc []) \<Longrightarrow>
     kind_rank p = 0 \<and> config_key p = ''ollama''"
  "p \<in> set (setup_block ''lmstudio'' LMStudioProvider_init pc []) \<Longrightarrow>
     kind_rank p = 1 \<and> config_key p = ''lmstudio''"
  "p \<in> set (setup_block ''localai'' (LocalAIProvider_init raises) pc []) \<Longrightarrow>
     kind_rank p = 2 \<and> config_key p = ''localai''"
  "p \<in> set (setup_block ''gemini'' GeminiProvider_init pc []) \<Longrightarrow>
     kind_rank p = 3 \<and> config_key p = ''gemini''"
  using init_kinds by (blast dest: setup_block_init)+

lemma setup_providers_sorted:
  "sorted_wrt (<) (map kind_rank (setup_providers raises config))"
  unfolding setup_providers_blocks map_append sorted_wrt_append
  by (auto simp: setup_block_sorted dest!: block_kinds)

lemma setup_providers_enabled:
  assumes "p \<in> set (setup_providers raises config)"
  shows "enabled (dict_get config ''providers'' []) (config_key p)"
proof -
  let ?pc = "dict_get config ''providers'' []"
  from assms consider
      "p \<in> set (setup_block ''ollama'' OllamaProvider_init ?pc [])"
    | "p \<in> set (setup_block ''lmstudio'' LMStudioProvider_init ?pc [])"
    | "p \<in> set (setup_block ''localai'' (LocalAIProvider_init raises) ?pc [])"
    | "p \<in> set (setup_block ''gemini'' GeminiProvider_init ?pc [])"
    unfolding setup_providers_blocks by auto
  then show ?thesis
  proof cases
    case 1
    from block_kinds(1) [OF 1] setup_block_enabled [OF 1] show ?thesis by simp
  next
    case 2
    from block_kinds(2) [OF 2] setup_block_enabled [OF 2] show ?thesis by simp
  next
    case 3
    from block_kinds(3) [OF 3] setup_block_enabled [OF 3] show ?thesis by simp
  next
    case 4
    from block_kinds(4) [OF 4] setup_block_enabled [OF 4] show ?thesis by simp
  qed
qed

lemma setup_providers_order_independent:
  assumes "distinct (map fst (dict_get config ''providers'' []))"
    and "distinct (map fst (dict_get config' ''providers'' []))"
    and "set (dict_get config ''providers'' []) = set (dict_get config' ''providers'' [])"
  shows "setup_providers raises config = setup_providers raises config'"
proof -
  from assms have "map_of (dict_get config ''providers'' [])
                     = map_of (dict_get config' ''providers'' [])"
    by (simp add: map_of_inject_set)
  then show ?thesis by (intro setup_providers_cong) simp_all
qed

lemma answering_sorted:
  "sorted_wrt (<) (map kind_rank providers) \<Longrightarrow>
   sorted_wrt (<) (map kind_rank (answering w providers))"
  unfolding sorted_wrt_map answering_def by (rule sorted_wrt_filter)

text \<open>
  C10.  For every configuration the kinds of the providers the registry returns are
  strictly increasing in the order Ollama, LM Studio, LocalAI, Gemini: the order is fixed
  and no kind occurs twice.  A provider is in the list only when the entry of its kind
  is present in the configuration with a true \<^verbatim>\<open>enabled\<close> (true as Python tests it).
  Two provider configurations with the same entries, in whatever order, give the same
  list.  The outcomes of \<^verbatim>\<open>analyze_token\<close> are those of these providers, position by
  position, when every exception that leaves a provider's call derives from
  \<^verbatim>\<open>Exception\<close>; whenever \<^verbatim>\<open>analyze_token\<close> returns, its outcomes are those of the
  providers that answered, whose kinds are in the same fixed order.
\<close>

theorem registry_fixed_kind_order:
  "sorted_wrt (<) (map kind_rank (setup_providers raises config))
   \<and> (\<forall>p \<in> set (setup_providers raises config).
         enabled (dict_get config ''providers'' []) (config_key p))
   \<and> (distinct (map fst (dict_get config ''providers'' []))
       \<and> distinct (map fst (dict_get config' ''providers'' []))
       \<and> set (dict_get config ''providers'' []) = set (dict_get config' ''providers'' [])
       \<longrightarrow> setup_providers raises config = setup_providers raises config')
   \<and> (raise_only_Exception w (setup_providers raises config) \<longrightarrow>
        (\<exists>rs. analyze_token w (setup_providers raises config) = Inr rs
              \<and> map Inr rs = map (safe_analyze_token w) (setup_providers raises config)))
   \<and> (\<forall>rs. analyze_token w (setup_providers raises config) = Inr rs \<longrightarrow>
        map Inr rs = map (safe_analyze_token w) (answering w (setup_providers raises config))
        \<and> sorted_wrt (<) (map kind_rank (answering w (setup_providers raises config))))"
  using setup_providers_sorted [of raises config] setup_providers_enabled [of _ raises config]
    setup_providers_order_independent [of config config' raises]
    analyze_token_gathers [of w "setup_providers raises config"]
    analyze_token_Inr(2) [of w "setup_providers raises config"]
    answering_sorted [of "setup_providers raises config" w]
  by blast

text \<open>
  A configuration that lists Gemini before Ollama and has LM Studio disabled, and the
  same entries with Ollama first: both give the Ollama provider, then the Gemini one, and
  the outcomes are the one of Ollama, then the one of Gemini.
\<close>

theorem registry_fixed_kind_order_witness:
  "setup_providers (\<lambda>c. None)
     [(''providers'',
       [(''gemini'', [(''enabled'', PyBool True), (''api_key'', PyStr ''key'')]),
        (''lmstudio'', [(''enabled'', PyBool False)]),
        (''ollama'', [(''enabled'', PyBool True)])])]
   = setup_providers (\<lambda>c. None)
     [(''providers'',
       [(''ollama'', [(''enabled'', PyBool True)]),
        (''gemini'', [(''enabled'', PyBool True), (''api_key'', PyStr ''key'')]),
        (''lmstudio'', [(''enabled'', PyBool False)])])]
   \<and> setup_providers (\<lambda>c. None)
     [(''providers'',
       [(''gemini'', [(''enabled'', PyBool True), (''api_key'', PyStr ''key'')]),
        (''lmstudio'', [(''enabled'', PyBool False)]),
        (''ollama'', [(''enabled'', PyBool True)])])]
   = [OllamaProvider [(''enabled'', PyBool True)] (PyStr ''http://localhost:11434'')
        (PyStr ''llama3.2'') (PyInt 30),
      GeminiProvider [(''enabled'', PyBool True), (''api_key'', PyStr ''key'')]
        (PyStr ''key'') (PyStr ''gemini-1.5-flash'') (PyInt 30)]
   \<and> enabled [(''gemini'', [(''enabled'', PyBool True), (''api_key'', PyStr ''key'')]),
               (''lmstudio'', [(''enabled'', PyBool False)]),
               (''ollama'', [(''enabled'', PyBool True)])] ''gemini''
   \<and> sorted_wrt (<) (map kind_rank (setup_providers (\<lambda>c. None)
     [(''providers'',
       [(''gemini'', [(''enabled'', PyBool True), (''api_key'', PyStr ''key'')]),
        (''lmstudio'', [(''enabled'', PyBool False)]),
        (''ollama'', [(''enabled'', PyBool True)])])]))
   \<and> analyze_token quiet_world (setup_providers (\<lambda>c. None)
     [(''providers'',
       [(''gemini'', [(''enabled'', PyBool True), (''api_key'', PyStr ''key'')]),
        (''lmstudio'', [(''enabled'', PyBool False)]),
        (''ollama'', [(''enabled'', PyBool True)])])])
     = Inr [AIResponse False (PyStr ''Error: '') 0 ''hold'' (1 / 2) [] [],
            AIResponse False (PyStr ''No response from Gemini'') 0 ''hold'' (1 / 2) [] []]"
proof -
  let ?c1 = "[(''providers'',
       [(''gemini'', [(''enabled'', PyBool True), (''api_key'', PyStr ''key'')]),
        (''lmstudio'', [(''enabled'', PyBool False)]),
        (''ollama'', [(''enabled'', PyBool True)])])]"
  let ?c2 = "[(''providers'',
       [(''ollama'', [(''enabled'', PyBool True)]),
        (''gemini'', [(''enabled'', PyBool True), (''api_key'', PyStr ''key'')]),
        (''lmstudio'', [(''enabled'', PyBool False)])])]"
  note t = registry_fixed_kind_order [of "\<lambda>c. None" ?c1 ?c2 quiet_world]
  have v: "setup_providers (\<lambda>c. None) ?c1
   = [OllamaProvider [(''enabled'', PyBool True)] (PyStr ''http://localhost:11434'')
        (PyStr ''llama3.2'') (PyInt 30),
      GeminiProvider [(''enabled'', PyBool True), (''api_key'', PyStr ''key'')]
        (PyStr ''key'') (PyStr ''gemini-1.5-flash'') (PyInt 30)]"
    by (simp add: setup_providers_def setup_block_def dict_get_def OllamaProvider_init_def
          GeminiProvider_init_def LMStudioProvider_init_def Let_def)
  have d: "distinct (map fst (dict_get ?c1 ''providers'' []))
       \<and> distinct (map fst (dict_get ?c2 ''providers'' []))
       \<and> set (dict_get ?c1 ''providers'' []) = set (dict_get ?c2 ''providers'' [])"
    by (auto simp: dict_get_def)
  with t have e: "setup_providers (\<lambda>c. None) ?c1 = setup_providers (\<lambda>c. None) ?c2"
    by blast
  from t have s: "sorted_wrt (<) (map kind_rank (setup_providers (\<lambda>c. None) ?c1))"
    by blast
  from t v have "enabled (dict_get ?c1 ''providers'' [])
      (config_key (GeminiProvider [(''enabled'', PyBool True), (''api_key'', PyStr ''key'')]
        (PyStr ''key'') (PyStr ''gemini-1.5-flash'') (PyInt 30)))"
    by simp
  then have n: "enabled [(''gemini'', [(''enabled'', PyBool True), (''api_key'', PyStr ''key'')]),
               (''lmstudio'', [(''enabled'', PyBool False)]),
               (''ollama'', [(''enabled'', PyBool True)])] ''gemini''"
    by (simp add: dict_get_def)
  have h: "raise_only_Exception quiet_world (setup_providers (\<lambda>c. None) ?c1)"
    unfolding v
    by (simp add: raise_only_Exception_def quiet_world_def base_only_classes_def)
  have q: "map (safe_analyze_token quiet_world) (setup_providers (\<lambda>c. None) ?c1) =
     [Inr (AIResponse False (PyStr ''Error: '') 0 ''hold'' (1 / 2) [] []),
      Inr (AIResponse False (PyStr ''No response from Gemini'') 0 ''hold'' (1 / 2) [] [])]"
    unfolding v
    by (simp add: quiet_world_def safe_analyze_token_def AIResponse_defaults_def
          base_only_classes_def)
  from t h obtain rs where
    "analyze_token quiet_world (setup_providers (\<lambda>c. None) ?c1) = Inr rs"
    "map Inr rs = map (safe_analyze_token quiet_world) (setup_providers (\<lambda>c. None) ?c1)"
    by blast
  with q have a: "analyze_token quiet_world (setup_providers (\<lambda>c. None) ?c1)
     = Inr [AIResponse False (PyStr ''Error: '') 0 ''hold'' (1 / 2) [] [],
            AIResponse False (PyStr ''No response from Gemini'') 0 ''hold'' (1 / 2) [] []]"
    using map_Inr_eq [of rs
       "[AIResponse False (PyStr ''Error: '') 0 ''hold'' (1 / 2) [] [],
         AIResponse False (PyStr ''No response from Gemini'') 0 ''hold'' (1 / 2) [] []]"]
    by simp
  from e v n s a show ?thesis by blast
qed

section \<open>The invariant of the outcomes\<close>

lemma score_tables_in_range:
  "0 \<le> gemini_confidence t \<and> gemini_confidence t \<le> 1"
  "0 \<le> gemini_risk_score t \<and> gemini_risk_score t \<le> 1"
  "0 \<le> lmstudio_confidence t \<and> lmstudio_confidence t \<le> 1"
  "0 \<le> lmstudio_risk_score t \<and> lmstudio_risk_score t \<le> 1"
  "0 \<le> ollama_confidence t \<and> ollama_confidence t \<le> 1"
  "0 \<le> ollama_risk_score t \<and> ollama_risk_score t \<le> 1"
  by (simp_all add: gemini_confidence_def gemini_risk_score_def lmstudio_confidence_def
        lmstudio_risk_score_def ollama_confidence_def ollama_risk_score_def)

lemma recommendation_tables_in_range:
  "gemini_recommendation t \<in> set [''buy'', ''sell'', ''hold'']"
  "lmstudio_recommendation t \<in> set [''buy'', ''sell'', ''hold'']"
  "ollama_recommendation t \<in> set [''buy'', ''sell'', ''hold'']"
  by (simp_all add: gemini_recommendation_def lmstudio_recommendation_def
        ollama_recommendation_def)

lemma defaults_ok:
  "adapter_outcome_ok (AIResponse_defaults s a m)"
  by (simp add: adapter_outcome_ok_def in_range_def AIResponse_defaults_def)

lemma parse_ok:
  "adapter_outcome_ok (Gemini_parse_analysis_response model reply)"
  "adapter_outcome_ok (LMStudio_parse_analysis_response model reply)"
  "adapter_outcome_ok (Ollama_parse_analysis_response model reply)"
proof -
  show "adapter_outcome_ok (Gemini_parse_analysis_response model reply)"
  proof (cases reply)
    case (PyStr s)
    then show ?thesis
      using score_tables_in_range(1,2) [of "lower s"]
        recommendation_tables_in_range(1) [of "lower s"]
      by (simp add: parse_of_str adapter_outcome_ok_def in_range_def)
  qed (simp_all add: Gemini_parse_analysis_response_def gemini_try_def defaults_ok)
  show "adapter_outcome_ok (LMStudio_parse_analysis_response model reply)"
  proof (cases reply)
    case (PyStr s)
    then show ?thesis
      using score_tables_in_range(3,4) [of "lower s"]
        recommendation_tables_in_range(2) [of "lower s"]
      by (simp add: parse_of_str adapter_outcome_ok_def in_range_def)
  qed (simp_all add: LMStudio_parse_analysis_response_def lmstudio_try_def defaults_ok)
  show "adapter_outcome_ok (Ollama_parse_analysis_response model reply)"
  proof (cases reply)
    case (PyStr s)
    then show ?thesis
      using score_tables_in_range(5,6) [of "lower s"]
        recommendation_tables_in_range(3) [of "lower s"]
      by (simp add: parse_of_str adapter_outcome_ok_def in_range_def)
  qed (simp_all add: Ollama_parse_analysis_response_def ollama_try_def defaults_ok)
qed

lemma parse_label:
  "provider_name_is_str (Gemini_parse_analysis_response model reply)"
  "provider_name_is_str (LMStudio_parse_analysis_response model reply)"
  "provider_name_is_str (Ollama_parse_analysis_response model reply)"
  by (simp_all add: Gemini_parse_analysis_response_def gemini_try_def
        LMStudio_parse_analysis_response_def lmstudio_try_def
        Ollama_parse_analysis_response_def ollama_try_def AIResponse_defaults_def
        provider_name_is_str_def split: sum.splits)

lemma defaults_label:
  "provider_name_is_str (AIResponse_defaults s a [])"
  "provider_name_is_str (AIResponse_defaults s a [(''provider'', MVal (PyStr n)), kv])"
  by (simp_all add: AIResponse_defaults_def provider_name_is_str_def)

lemma analyze_ok:
  "Ollama_analyze_token model out = Inr r \<Longrightarrow> adapter_outcome_ok r"
  "LMStudio_analyze_token model out = Inr r \<Longrightarrow> adapter_outcome_ok r"
  "Gemini_analyze_token model gout = Inr r \<Longrightarrow> adapter_outcome_ok r"
proof -
  show "Ollama_analyze_token model out = Inr r \<Longrightarrow> adapter_outcome_ok r"
    by (cases out) (auto simp: parse_ok defaults_ok split: if_splits)
  show "LMStudio_analyze_token model out = Inr r \<Longrightarrow> adapter_outcome_ok r"
    by (cases out) (auto simp: parse_ok defaults_ok split: if_splits)
  show "Gemini_analyze_token model gout = Inr r \<Longrightarrow> adapter_outcome_ok r"
    by (cases gout) (auto simp: parse_ok defaults_ok split: if_splits)
qed

lemma analyze_label:
  "Ollama_analyze_token model out = Inr r \<Longrightarrow> provider_name_is_str r"
  "LMStudio_analyze_token model out = Inr r \<Longrightarrow> provider_name_is_str r"
  "Gemini_analyze_token model gout = Inr r \<Longrightarrow> provider_name_is_str r"
proof -
  show "Ollama_analyze_token model out = Inr r \<Longrightarrow> provider_name_is_str r"
    by (cases out) (auto simp: parse_label defaults_label split: if_splits)
  show "LMStudio_analyze_token model out = Inr r \<Longrightarrow> provider_name_is_str r"
    by (cases out) (auto simp: parse_label defaults_label split: if_splits)
  show "Gemini_analyze_token model gout = Inr r \<Longrightarrow> provider_name_is_str r"
    by (cases gout) (auto simp: parse_label defaults_label split: if_splits)
qed

lemma market_ok:
  "Ollama_analyze_market_conditions model mout = Inr r \<Longrightarrow> adapter_outcome_ok r"
  "LMStudio_analyze_market_conditions model mout = Inr r \<Longrightarrow> adapter_outcome_ok r"
  "Gemini_analyze_market_conditions model mout = Inr r \<Longrightarrow> adapter_outcome_ok r"
  by (cases mout; auto simp: parse_ok defaults_ok split: if_splits)+

text \<open>What the wrapped call of a provider returns, when LocalAI's outcomes are in order.\<close>

lemma safe_analyze_token_ok:
  assumes "\<forall>p r. localai_analyze_token w p = Inr r \<longrightarrow>
             adapter_outcome_ok r \<and> provider_name_is_str r"
    and "safe_analyze_token w provider = Inr r"
  shows "adapter_outcome_ok r \<and> provider_name_is_str r"
proof (cases "provider_analyze_token w provider")
  case (Inl e)
  with assms(2) show ?thesis
    by (auto simp: safe_analyze_token_def defaults_ok defaults_label split: if_splits)
next
  case (Inr response)
  with assms(2) have r: "r = response" by (simp add: safe_analyze_token_def)
  from Inr assms(1) show ?thesis unfolding r
    by (cases provider) (auto simp: analyze_ok analyze_label)
qed

lemma analyze_token_ok:
  assumes "\<forall>p r. localai_analyze_token w p = Inr r \<longrightarrow>
             adapter_outcome_ok r \<and> provider_name_is_str r"
    and "analyze_token w providers = Inr rs"
    and "r \<in> set rs"
  shows "adapter_outcome_ok r \<and> provider_name_is_str r"
proof -
  from assms(3) have "Inr r \<in> set (map Inr rs :: (exn + AIResponse) list)"
    by simp
  then have "Inr r \<in> set (map (safe_analyze_token w) (answering w providers))"
    by (simp only: analyze_token_Inr(2) [OF assms(2)])
  then obtain p where "safe_analyze_token w p = Inr r" by auto
  from safe_analyze_token_ok [OF assms(1) this] show ?thesis .
qed

lemma sum_list_unit_bounds:
  fixes xs :: "rat list"
  assumes "\<forall>x \<in> set xs. 0 \<le> x \<and> x \<le> 1"
  shows "0 \<le> sum_list xs \<and> sum_list xs \<le> of_nat (length xs)"
  using assms by (induction xs) auto

lemma mean_unit_bounds:
  assumes "xs \<noteq> []" and "\<forall>x \<in> set xs. 0 \<le> x \<and> x \<le> 1"
  shows "0 \<le> mean xs \<and> mean xs \<le> 1"
proof -
  from assms(1) have pos: "(0::rat) < of_nat (length xs)" by simp
  from sum_list_unit_bounds [OF assms(2)]
  have "0 \<le> sum_list xs" and "sum_list xs \<le> of_nat (length xs)" by simp_all
  with pos show ?thesis
    by (simp add: mean_def divide_le_eq)
qed

lemma consensus_ok:
  assumes "\<forall>r \<in> set responses. in_range r \<and> provider_name_is_str r"
  shows "\<exists>d. consensus responses = Inr d \<and> consensus_decision_ok d
              \<and> length (reasoning d) = min 10 (length (concat (map reasoning responses)))"
proof (cases "responses = []")
  case True
  then show ?thesis
    by (simp add: consensus_def AIResponse_defaults_def consensus_decision_ok_def in_range_def)
next
  case False
  from assms have labels: "\<forall>r \<in> set responses. provider_name_is_str r" by simp
  from assms have "\<forall>x \<in> set (map confidence responses). 0 \<le> x \<and> x \<le> 1"
    and "\<forall>x \<in> set (map risk_score responses). 0 \<le> x \<and> x \<le> 1"
    by (auto simp: in_range_def)
  with False have "0 \<le> mean (map confidence responses) \<and> mean (map confidence responses) \<le> 1"
    and "0 \<le> mean (map risk_score responses) \<and> mean (map risk_score responses) \<le> 1"
    by (simp_all add: mean_unit_bounds)
  moreover from consensus_nonempty [OF False labels] obtain d where
    "consensus responses = Inr d"
    "confidence d = mean (map confidence responses)"
    "risk_score d = mean (map risk_score responses)"
    "recommendation d \<in> set [''buy'', ''sell'', ''hold'']"
    "reasoning d = take 10 (concat (map reasoning responses))"
    by force
  ultimately show ?thesis
    by (auto simp: consensus_decision_ok_def in_range_def)
qed

text \<open>
  C9.  Every outcome of an interpreter, and every outcome that an adapter's
  \<^verbatim>\<open>analyze_token\<close> or \<^verbatim>\<open>analyze_market_conditions\<close> returns, whatever the reply and
  whatever the network does, has confidence and risk within \<open>[0,1]\<close>, a recommendation
  among buy, sell and hold, and at most 5 reasoning entries.  In a world where the
  outcomes of the LocalAI adapter, whose source is missing, are of this kind too, so is
  every outcome that the manager's \<^verbatim>\<open>analyze_token\<close> returns, and every decision that
  \<^verbatim>\<open>get_consensus_analysis\<close> returns has scores within \<open>[0,1]\<close>, one of the three
  recommendations and at most 10 reasoning entries; it does return one unless a call
  stops the event loop.  On any list of outcomes within range the decision's reasoning
  is the first 10 of the merged entries, however many there are.
\<close>

theorem outcomes_satisfy_invariant:
  assumes "\<forall>p r. localai_analyze_token w p = Inr r \<longrightarrow>
             adapter_outcome_ok r \<and> provider_name_is_str r"
  shows "adapter_outcome_ok (Gemini_parse_analysis_response model reply)
     \<and> adapter_outcome_ok (LMStudio_parse_analysis_response model reply)
     \<and> adapter_outcome_ok (Ollama_parse_analysis_response model reply)
     \<and> (\<forall>r. Gemini_analyze_token model gout = Inr r \<longrightarrow> adapter_outcome_ok r)
     \<and> (\<forall>r. LMStudio_analyze_token model out = Inr r \<longrightarrow> adapter_outcome_ok r)
     \<and> (\<forall>r. Ollama_analyze_token model out = Inr r \<longrightarrow> adapter_outcome_ok r)
     \<and> (\<forall>r. Gemini_analyze_market_conditions model mout = Inr r \<longrightarrow> adapter_outcome_ok r)
     \<and> (\<forall>r. LMStudio_analyze_market_conditions model mout = Inr r \<longrightarrow> adapter_outcome_ok r)
     \<and> (\<forall>r. Ollama_analyze_market_conditions model mout = Inr r \<longrightarrow> adapter_outcome_ok r)
     \<and> (\<forall>rs. analyze_token w providers = Inr rs \<longrightarrow> (\<forall>r \<in> set rs. adapter_outcome_ok r))
     \<and> (\<forall>d. get_consensus_analysis w providers = Inr d \<longrightarrow> consensus_decision_ok d)
     \<and> (loop_survives w providers \<longrightarrow>
          (\<exists>d. get_consensus_analysis w providers = Inr d \<and> consensus_decision_ok d))
     \<and> (\<forall>responses. (\<forall>r \<in> set responses. in_range r \<and> provider_name_is_str r) \<longrightarrow>
           (\<exists>d. consensus responses = Inr d \<and> consensus_decision_ok d
                 \<and> length (reasoning d) = min 10 (length (concat (map reasoning responses)))))"
proof -
  have a: "\<forall>rs. analyze_token w providers = Inr rs \<longrightarrow> (\<forall>r \<in> set rs. adapter_outcome_ok r)"
    using analyze_token_ok [OF assms] by blast
  have r: "\<exists>d. consensus rs = Inr d \<and> consensus_decision_ok d"
    if "analyze_token w providers = Inr rs" for rs
  proof -
    have "\<forall>r \<in> set rs. in_range r \<and> provider_name_is_str r"
      using analyze_token_ok [OF assms that] by (auto simp: adapter_outcome_ok_def)
    from consensus_ok [OF this] show ?thesis by blast
  qed
  have b: "\<forall>d. get_consensus_analysis w providers = Inr d \<longrightarrow> consensus_decision_ok d"
  proof (intro allI impI)
    fix d
    assume d: "get_consensus_analysis w providers = Inr d"
    then obtain rs where rs: "analyze_token w providers = Inr rs" and c: "consensus rs = Inr d"
      by (auto simp: get_consensus_analysis_def split: sum.splits)
    from r [OF rs] c show "consensus_decision_ok d" by auto
  qed
  have s: "loop_survives w providers \<longrightarrow>
          (\<exists>d. get_consensus_analysis w providers = Inr d \<and> consensus_decision_ok d)"
  proof
    assume "loop_survives w providers"
    from analyze_token_survives [OF this] obtain rs where rs: "analyze_token w providers = Inr rs"
      by blast
    from r [OF rs] rs
    show "\<exists>d. get_consensus_analysis w providers = Inr d \<and> consensus_decision_ok d"
      by (simp add: get_consensus_analysis_def)
  qed
  have c: "\<forall>responses. (\<forall>r \<in> set responses. in_range r \<and> provider_name_is_str r) \<longrightarrow>
           (\<exists>d. consensus responses = Inr d \<and> consensus_decision_ok d
                 \<and> length (reasoning d) = min 10 (length (concat (map reasoning responses))))"
    using consensus_ok by blast
  have g: "\<forall>r. Gemini_analyze_token model gout = Inr r \<longrightarrow> adapter_outcome_ok r"
    and l: "\<forall>r. LMStudio_analyze_token model out = Inr r \<longrightarrow> adapter_outcome_ok r"
    and o: "\<forall>r. Ollama_analyze_token model out = Inr r \<longrightarrow> adapter_outcome_ok r"
    using analyze_ok by blast+
  have gm: "\<forall>r. Gemini_analyze_market_conditions model mout = Inr r \<longrightarrow> adapter_outcome_ok r"
    and lm: "\<forall>r. LMStudio_analyze_market_conditions model mout = Inr r \<longrightarrow> adapter_outcome_ok r"
    and om: "\<forall>r. Ollama_analyze_market_conditions model mout = Inr r \<longrightarrow> adapter_outcome_ok r"
    using market_ok by blast+
  show ?thesis
    by (intro conjI) (rule parse_ok g l o gm lm om a b s c)+
qed

text \<open>
  A world in which Ollama answers with a reply that is parsed, LocalAI returns a sell
  signal and Gemini has no candidates; and three outcomes with four reasoning entries
  each, twelve in all, of which the decision keeps ten.
\<close>

theorem outcomes_satisfy_invariant_witness:
  "(\<exists>rs. analyze_token
        \<lparr>ollama_http = (\<lambda>p. AnalysisText (PyStr ''We recommend buy. - Low risk profile.'')),
         lmstudio_http = (\<lambda>p. ErrorStatus ''Service Unavailable''),
         gemini_http = (\<lambda>p. GNoCandidates),
         localai_analyze_token = (\<lambda>p. Inr (signal ''sell'' (6 / 10)))\<rparr>
        [OllamaProvider [] (PyStr ''http://localhost:11434'') (PyStr ''llama3.2'') (PyInt 30),
         LocalAIProvider [],
         GeminiProvider [] (PyStr ''key'') (PyStr ''gemini-1.5-flash'') (PyInt 30)] = Inr rs
      \<and> list_all adapter_outcome_ok rs
      \<and> map recommendation rs = [''buy'', ''sell'', ''hold''])
   \<and> (\<exists>d. get_consensus_analysis
        \<lparr>ollama_http = (\<lambda>p. AnalysisText (PyStr ''We recommend buy. - Low risk profile.'')),
         lmstudio_http = (\<lambda>p. ErrorStatus ''Service Unavailable''),
         gemini_http = (\<lambda>p. GNoCandidates),
         localai_analyze_token = (\<lambda>p. Inr (signal ''sell'' (6 / 10)))\<rparr>
        [OllamaProvider [] (PyStr ''http://localhost:11434'') (PyStr ''llama3.2'') (PyInt 30),
         LocalAIProvider [],
         GeminiProvider [] (PyStr ''key'') (PyStr ''gemini-1.5-flash'') (PyInt 30)] = Inr d
        \<and> consensus_decision_ok d)
   \<and> (\<exists>d. consensus
        [AIResponse True (PyStr ''r'') (1 / 2) ''buy'' (1 / 2) [''- a'', ''- b'', ''- c'', ''- d''] [],
         AIResponse True (PyStr ''r'') (1 / 2) ''buy'' (1 / 2) [''- e'', ''- f'', ''- g'', ''- h''] [],
         AIResponse True (PyStr ''r'') (1 / 2) ''buy'' (1 / 2) [''- i'', ''- j'', ''- k'', ''- l''] []]
        = Inr d \<and> consensus_decision_ok d \<and> length (reasoning d) = 10)"
proof -
  let ?w = "\<lparr>ollama_http = (\<lambda>p. AnalysisText (PyStr ''We recommend buy. - Low risk profile.'')),
         lmstudio_http = (\<lambda>p. ErrorStatus ''Service Unavailable''),
         gemini_http = (\<lambda>p. GNoCandidates),
         localai_analyze_token = (\<lambda>p. Inr (signal ''sell'' (6 / 10)))\<rparr>"
  let ?ps = "[OllamaProvider [] (PyStr ''http://localhost:11434'') (PyStr ''llama3.2'') (PyInt 30),
         LocalAIProvider [],
         GeminiProvider [] (PyStr ''key'') (PyStr ''gemini-1.5-flash'') (PyInt 30)]"
  let ?rs = "[AIResponse True (PyStr ''r'') (1 / 2) ''buy'' (1 / 2) [''- a'', ''- b'', ''- c'', ''- d''] [],
         AIResponse True (PyStr ''r'') (1 / 2) ''buy'' (1 / 2) [''- e'', ''- f'', ''- g'', ''- h''] [],
         AIResponse True (PyStr ''r'') (1 / 2) ''buy'' (1 / 2) [''- i'', ''- j'', ''- k'', ''- l''] []]"
  have h: "\<forall>p r. localai_analyze_token ?w p = Inr r \<longrightarrow>
             adapter_outcome_ok r \<and> provider_name_is_str r"
    by (simp add: adapter_outcome_ok_def in_range_def signal_def provider_name_is_str_def)
  note t = outcomes_satisfy_invariant [OF h, of _ _ _ _ _ ?ps]
  have l: "loop_survives ?w ?ps"
    by (simp add: loop_survives_def safe_analyze_token_def)
  from analyze_token_survives [OF l] obtain rs where rs: "analyze_token ?w ?ps = Inr rs"
    by blast
  from t rs have a: "list_all adapter_outcome_ok rs"
    unfolding list_all_iff by blast
  have "analyze_token ?w ?ps = Inr (valid_responses (map (safe_analyze_token ?w) ?ps))"
    by (rule analyze_token_survives [OF l])
  with rs have "map recommendation rs
      = map recommendation (valid_responses (map (safe_analyze_token ?w) ?ps))"
    by simp
  also have "\<dots> = [''buy'', ''sell'', ''hold'']"
    by code_simp
  finally have m: "map recommendation rs = [''buy'', ''sell'', ''hold'']" .
  from t l have b: "\<exists>d. get_consensus_analysis ?w ?ps = Inr d \<and> consensus_decision_ok d"
    by blast
  have r: "\<forall>r \<in> set ?rs. in_range r \<and> provider_name_is_str r"
    by (simp add: in_range_def provider_name_is_str_def)
  from t have "(\<forall>r \<in> set ?rs. in_range r \<and> provider_name_is_str r) \<longrightarrow>
           (\<exists>d. consensus ?rs = Inr d \<and> consensus_decision_ok d
                 \<and> length (reasoning d) = min 10 (length (concat (map reasoning ?rs))))"
    by blast
  with r obtain d where d: "consensus ?rs = Inr d" "consensus_decision_ok d"
      "length (reasoning d) = min 10 (length (concat (map reasoning ?rs)))"
    by blast
  have "min 10 (length (concat (map reasoning ?rs))) = (10::nat)"
    by simp
  with d have c: "\<exists>d. consensus ?rs = Inr d \<and> consensus_decision_ok d
                   \<and> length (reasoning d) = 10"
    by metis
  from rs a m have x: "\<exists>rs. analyze_token ?w ?ps = Inr rs
      \<and> list_all adapter_outcome_ok rs
      \<and> map recommendation rs = [''buy'', ''sell'', ''hold'']"
    by (intro exI [of _ rs] conjI)
  show ?thesis
    by (rule conjI [OF x conjI [OF b c]])
qed

end
